theory Spec2Isabelle
  imports Complex_Main
begin

section \<open>The factory graph of graph.ts\<close>

text \<open>
  A shallow embedding of \<^verbatim>\<open>src/graph.ts\<close>: the node classes become records, object
  references become indices into a store, the JavaScript \<^verbatim>\<open>Set\<close> becomes a duplicate-free
  list in insertion order, exceptions become the left summand of a sum type, and the
  recursion of the relay rate getters, which the source does not bound, runs on fuel.
\<close>

subsection \<open>JavaScript numbers\<close>

text \<open>
  Quantities that come from the catalog (volumes, capacities, recipe quantities and times,
  split fractions, demanded output) are finite numbers and are modelled as rationals;
  rounding is not modelled. Link counts are integers. A rate is the result of a division
  and may be \<^verbatim>\<open>Infinity\<close>, \<^verbatim>\<open>-Infinity\<close> or \<^verbatim>\<open>NaN\<close>: the type \<open>jsnum\<close> keeps these three
  values apart from the finite ones, and its operations follow IEEE 754 on them (a finite
  zero stands for \<^verbatim>\<open>+0\<close>).
\<close>

datatype jsnum = Fin rat | PInf | NInf | NaN

fun js_add :: "jsnum \<Rightarrow> jsnum \<Rightarrow> jsnum" where
  "js_add NaN _ = NaN"
| "js_add _ NaN = NaN"
| "js_add PInf NInf = NaN"
| "js_add NInf PInf = NaN"
| "js_add PInf _ = PInf"
| "js_add _ PInf = PInf"
| "js_add NInf _ = NInf"
| "js_add _ NInf = NInf"
| "js_add (Fin a) (Fin b) = Fin (a + b)"

fun js_mul :: "jsnum \<Rightarrow> jsnum \<Rightarrow> jsnum" where
  "js_mul NaN _ = NaN"
| "js_mul _ NaN = NaN"
| "js_mul (Fin a) (Fin b) = Fin (a * b)"
| "js_mul (Fin a) PInf = (if a = 0 then NaN else if 0 < a then PInf else NInf)"
| "js_mul (Fin a) NInf = (if a = 0 then NaN else if 0 < a then NInf else PInf)"
| "js_mul PInf (Fin b) = (if b = 0 then NaN else if 0 < b then PInf else NInf)"
| "js_mul NInf (Fin b) = (if b = 0 then NaN else if 0 < b then NInf else PInf)"
| "js_mul PInf PInf = PInf"
| "js_mul NInf NInf = PInf"
| "js_mul PInf NInf = NInf"
| "js_mul NInf PInf = NInf"

fun js_div :: "jsnum \<Rightarrow> jsnum \<Rightarrow> jsnum" where
  "js_div NaN _ = NaN"
| "js_div _ NaN = NaN"
| "js_div (Fin a) (Fin b) =
     (if b = 0 then (if a = 0 then NaN else if 0 < a then PInf else NInf)
      else Fin (a / b))"
| "js_div (Fin a) PInf = Fin 0"
| "js_div (Fin a) NInf = Fin 0"
| "js_div PInf (Fin b) = (if 0 \<le> b then PInf else NInf)"
| "js_div NInf (Fin b) = (if 0 \<le> b then NInf else PInf)"
| "js_div PInf PInf = NaN"
| "js_div PInf NInf = NaN"
| "js_div NInf PInf = NaN"
| "js_div NInf NInf = NaN"

text \<open>\<^verbatim>\<open>Math.min\<close> of two numbers.\<close>

fun js_min :: "jsnum \<Rightarrow> jsnum \<Rightarrow> jsnum" where
  "js_min NaN _ = NaN"
| "js_min _ NaN = NaN"
| "js_min NInf _ = NInf"
| "js_min _ NInf = NInf"
| "js_min PInf y = y"
| "js_min x PInf = x"
| "js_min (Fin a) (Fin b) = Fin (min a b)"

fun is_finite :: "jsnum \<Rightarrow> bool" where
  "is_finite (Fin _) = True"
| "is_finite _ = False"

subsection \<open>The catalog (modules items and recipes)\<close>

text \<open>
  Modelled from the spec: the types \<^verbatim>\<open>Item\<close>, \<^verbatim>\<open>ContainerElement\<close> and \<^verbatim>\<open>Recipe\<close> and the
  function \<^verbatim>\<open>isOre\<close> are imported by graph.ts from modules that are not part of the
  source at hand. An item has an identity, a volume and a raw flag; a recipe has
  ingredients, byproducts, one product, a time and an industry kind; a capacity tier has
  a capacity. The source compares items by reference (\<^verbatim>\<open>===\<close>); catalog items are
  singletons, so equality of the records stands for it.
\<close>

record Item =
  name :: string
  volume :: rat
  ore :: bool

definition isOre :: "Item \<Rightarrow> bool" where
  "isOre i = Item.ore i"

record ContainerElement =
  name :: string
  capacity :: rat

record ItemQuantity =
  item :: Item
  quantity :: rat

record Recipe =
  ingredients :: "ItemQuantity list"
  byproducts :: "ItemQuantity list"
  product :: ItemQuantity
  time :: rat
  industry :: string

text \<open>
  \<^verbatim>\<open>findRecipe\<close> and \<^verbatim>\<open>CONTAINERS_ASCENDING_BY_CAPACITY\<close> are parameters of every function
  that uses them. The lookup fails for an item without a recipe: \<open>None\<close>, which the callers
  turn into the error \<open>NoRecipe\<close>.
\<close>

type_synonym RecipeLookup = "Item \<Rightarrow> Recipe option"

datatype error = CatalogEmpty | NoRecipe

definition MAX_CONTAINER_LINKS :: int where
  "MAX_CONTAINER_LINKS = 10"

definition MAX_INDUSTRY_LINKS :: int where
  "MAX_INDUSTRY_LINKS = 7"

subsection \<open>Nodes and the store\<close>

text \<open>
  A reference to an object is an index. \<open>NodeRef\<close> is the union
  \<^verbatim>\<open>IndustryNode | TransferNode\<close>, \<open>BufferRef\<close> the union
  \<^verbatim>\<open>ContainerNode | TransferContainerNode\<close>.
\<close>

datatype NodeRef = IndustryRef nat | TransferRef nat

datatype BufferRef = ContainerRef nat | TransferContainerRef nat

text \<open>The two fields that the subclass \<^verbatim>\<open>OutputNode\<close> adds to a \<^verbatim>\<open>ContainerNode\<close>.\<close>

record OutputNode =
  outputRate :: rat
  maintainedOutput :: rat

text \<open>
  \<open>asOutput\<close> is \<open>Some\<close> for an instance of \<^verbatim>\<open>OutputNode\<close>, whose getters \<^verbatim>\<open>egress\<close> and
  \<^verbatim>\<open>maintain\<close> override those of the base class. The back reference \<^verbatim>\<open>factory\<close> is read
  nowhere in the file and is left out of all four node records.
\<close>

record ContainerNode =
  name :: string
  item :: Item
  split :: rat
  producers :: "NodeRef list"
  consumers :: "NodeRef list"
  asOutput :: "OutputNode option"

record TransferContainerNode =
  name :: string
  items :: "Item list"
  producers :: "nat list"
  consumers :: "nat list"

record IndustryNode =
  name :: string
  recipe :: Recipe
  inputs :: "BufferRef list"
  "output" :: "nat option"

record TransferNode =
  name :: string
  item :: Item
  inputs :: "nat list"
  "output" :: "BufferRef option"

record Store =
  containerNodes :: "nat \<Rightarrow> ContainerNode"
  transferContainerNodes :: "nat \<Rightarrow> TransferContainerNode"
  industryNodes :: "nat \<Rightarrow> IndustryNode"
  transferNodes :: "nat \<Rightarrow> TransferNode"

text \<open>\<^verbatim>\<open>Set.prototype.add\<close> and \<^verbatim>\<open>Set.prototype.delete\<close> on the insertion-ordered list.\<close>

definition Set_add :: "'a \<Rightarrow> 'a list \<Rightarrow> 'a list" where
  "Set_add x xs = (if x \<in> set xs then xs else xs @ [x])"

definition Set_delete :: "'a \<Rightarrow> 'a list \<Rightarrow> 'a list" where
  "Set_delete x xs = removeAll x xs"

subsection \<open>Link counts and link-capacity checks\<close>

definition ContainerNode_incomingLinkCount :: "ContainerNode \<Rightarrow> nat" where
  "ContainerNode_incomingLinkCount c = length (ContainerNode.producers c)"

definition ContainerNode_outgoingLinkCount :: "ContainerNode \<Rightarrow> nat" where
  "ContainerNode_outgoingLinkCount c = length (ContainerNode.consumers c)"

definition TransferContainerNode_incomingLinkCount :: "TransferContainerNode \<Rightarrow> nat" where
  "TransferContainerNode_incomingLinkCount c = length (TransferContainerNode.producers c)"

definition TransferContainerNode_outgoingLinkCount :: "TransferContainerNode \<Rightarrow> nat" where
  "TransferContainerNode_outgoingLinkCount c = length (TransferContainerNode.consumers c)"

definition IndustryNode_incomingLinkCount :: "IndustryNode \<Rightarrow> nat" where
  "IndustryNode_incomingLinkCount n = length (IndustryNode.inputs n)"

definition TransferNode_incomingLinkCount :: "TransferNode \<Rightarrow> nat" where
  "TransferNode_incomingLinkCount n = length (TransferNode.inputs n)"

definition ContainerNode_canAddIncomingLinks :: "ContainerNode \<Rightarrow> int \<Rightarrow> bool" where
  "ContainerNode_canAddIncomingLinks c count =
     (int (ContainerNode_incomingLinkCount c) + count \<le> MAX_CONTAINER_LINKS)"

definition TransferContainerNode_canAddIncomingLinks :: "TransferContainerNode \<Rightarrow> int \<Rightarrow> bool" where
  "TransferContainerNode_canAddIncomingLinks c count =
     (int (TransferContainerNode_incomingLinkCount c) + count \<le> MAX_CONTAINER_LINKS)"

definition TransferContainerNode_canAddOutgoingLinks :: "TransferContainerNode \<Rightarrow> int \<Rightarrow> bool" where
  "TransferContainerNode_canAddOutgoingLinks c count =
     (int (TransferContainerNode_outgoingLinkCount c) + count \<le> MAX_CONTAINER_LINKS)"

definition IndustryNode_canAddIncomingLinks :: "IndustryNode \<Rightarrow> int \<Rightarrow> bool" where
  "IndustryNode_canAddIncomingLinks n count =
     (int (IndustryNode_incomingLinkCount n) + count \<le> MAX_INDUSTRY_LINKS)"

definition TransferNode_canAddIncomingLinks :: "TransferNode \<Rightarrow> int \<Rightarrow> bool" where
  "TransferNode_canAddIncomingLinks n count =
     (int (TransferNode_incomingLinkCount n) + count \<le> MAX_INDUSTRY_LINKS)"

text \<open>The getter \<^verbatim>\<open>item\<close> of an industry, and \<^verbatim>\<open>consumer.item\<close> for a node of either class.\<close>

definition IndustryNode_item :: "IndustryNode \<Rightarrow> Item" where
  "IndustryNode_item n = ItemQuantity.item (Recipe.product (IndustryNode.recipe n))"

fun NodeRef_item :: "Store \<Rightarrow> NodeRef \<Rightarrow> Item" where
  "NodeRef_item s (IndustryRef i) = IndustryNode_item (industryNodes s i)"
| "NodeRef_item s (TransferRef t) = TransferNode.item (transferNodes s t)"

definition isSplit :: "ContainerNode \<Rightarrow> bool" where
  "isSplit c = (ContainerNode.split c \<noteq> 1)"

text \<open>
  The two nested loops of \<^verbatim>\<open>canAddOutgoingLinks\<close>: for every byproduct, every consumer whose
  item is the byproduct's item takes one off the counter.
\<close>

definition reservedByproductLinks :: "Store \<Rightarrow> NodeRef list \<Rightarrow> ItemQuantity list \<Rightarrow> int" where
  "reservedByproductLinks s cs bps =
     foldl (\<lambda>reserved byproduct.
              foldl (\<lambda>reserved' consumer.
                       if NodeRef_item s consumer = ItemQuantity.item byproduct
                       then reserved' + (- 1) else reserved')
                    reserved cs)
           (int (length bps)) bps"

definition ContainerNode_canAddOutgoingLinks ::
  "RecipeLookup \<Rightarrow> Store \<Rightarrow> ContainerNode \<Rightarrow> int \<Rightarrow> error + bool" where
  "ContainerNode_canAddOutgoingLinks findRecipe s c count =
     (if isSplit c then Inr False
      else if isOre (ContainerNode.item c)
      then Inr (int (ContainerNode_outgoingLinkCount c) + count \<le> MAX_CONTAINER_LINKS)
      else (case findRecipe (ContainerNode.item c) of
              None \<Rightarrow> Inl NoRecipe
            | Some r \<Rightarrow>
                Inr (int (ContainerNode_outgoingLinkCount c) + count
                       + reservedByproductLinks s (ContainerNode.consumers c) (Recipe.byproducts r)
                     \<le> MAX_CONTAINER_LINKS)))"

subsection \<open>Recipe quantities and rates of an industry\<close>

text \<open>
  The loop \<^verbatim>\<open>for (const x of xs) if (x.item === it) quantity += x.quantity\<close>, which
  \<^verbatim>\<open>maintain\<close>, \<^verbatim>\<open>getInput\<close> and \<^verbatim>\<open>getOutput\<close> share.
\<close>

definition addMatching :: "Item \<Rightarrow> ItemQuantity list \<Rightarrow> rat \<Rightarrow> rat" where
  "addMatching it xs q0 =
     foldl (\<lambda>q x. if ItemQuantity.item x = it then q + ItemQuantity.quantity x else q) q0 xs"

definition getOutput :: "RecipeLookup \<Rightarrow> IndustryNode \<Rightarrow> Item \<Rightarrow> error + jsnum" where
  "getOutput findRecipe n it =
     (case findRecipe (IndustryNode_item n) of
        None \<Rightarrow> Inl NoRecipe
      | Some r \<Rightarrow>
          Inr (js_div (Fin (addMatching it (Recipe.byproducts r @ [Recipe.product r]) 0))
                      (Fin (Recipe.time r))))"

definition getInput :: "RecipeLookup \<Rightarrow> IndustryNode \<Rightarrow> Item \<Rightarrow> error + jsnum" where
  "getInput findRecipe n it =
     (case findRecipe (IndustryNode_item n) of
        None \<Rightarrow> Inl NoRecipe
      | Some r \<Rightarrow>
          Inr (js_div (Fin (addMatching it (Recipe.ingredients r) 0)) (Fin (Recipe.time r))))"

subsection \<open>Required quantity and required container\<close>

fun maintainLoop :: "RecipeLookup \<Rightarrow> Store \<Rightarrow> Item \<Rightarrow> NodeRef list \<Rightarrow> rat \<Rightarrow> error + rat" where
  "maintainLoop findRecipe s it [] m = Inr m"
| "maintainLoop findRecipe s it (TransferRef t # cs) m = maintainLoop findRecipe s it cs m"
| "maintainLoop findRecipe s it (IndustryRef i # cs) m =
     (case findRecipe (IndustryNode_item (industryNodes s i)) of
        None \<Rightarrow> Inl NoRecipe
      | Some r \<Rightarrow> maintainLoop findRecipe s it cs (addMatching it (Recipe.ingredients r) m))"

text \<open>The getter of the base class, then the getter with the override of \<^verbatim>\<open>OutputNode\<close>.\<close>

definition ContainerNode_maintain_base :: "RecipeLookup \<Rightarrow> Store \<Rightarrow> ContainerNode \<Rightarrow> error + rat" where
  "ContainerNode_maintain_base findRecipe s c =
     (case maintainLoop findRecipe s (ContainerNode.item c) (ContainerNode.consumers c) 0 of
        Inl e \<Rightarrow> Inl e
      | Inr m \<Rightarrow> Inr (m * ContainerNode.split c))"

definition ContainerNode_maintain :: "RecipeLookup \<Rightarrow> Store \<Rightarrow> ContainerNode \<Rightarrow> error + rat" where
  "ContainerNode_maintain findRecipe s c =
     (case ContainerNode.asOutput c of
        None \<Rightarrow> ContainerNode_maintain_base findRecipe s c
      | Some out \<Rightarrow>
          (case ContainerNode_maintain_base findRecipe s c of
             Inl e \<Rightarrow> Inl e
           | Inr m \<Rightarrow> Inr (m + OutputNode.maintainedOutput out)))"

text \<open>
  The selection loop of both \<^verbatim>\<open>container\<close> getters: it starts from the first tier and
  runs over the whole list, taking every tier that is large enough.
\<close>

definition selectContainer :: "rat \<Rightarrow> ContainerElement \<Rightarrow> ContainerElement list \<Rightarrow> ContainerElement" where
  "selectContainer requiredCapacity first tiers =
     foldl (\<lambda>requiredContainer checkContainer.
              if requiredCapacity \<le> ContainerElement.capacity checkContainer
              then checkContainer else requiredContainer)
           first tiers"

definition ContainerNode_container ::
  "RecipeLookup \<Rightarrow> ContainerElement list \<Rightarrow> Store \<Rightarrow> ContainerNode \<Rightarrow> error + ContainerElement" where
  "ContainerNode_container findRecipe CONTAINERS s c =
     (if length CONTAINERS < 1 then Inl CatalogEmpty
      else (case ContainerNode_maintain findRecipe s c of
              Inl e \<Rightarrow> Inl e
            | Inr m \<Rightarrow>
                Inr (selectContainer (m * Item.volume (ContainerNode.item c))
                       (CONTAINERS ! 0) CONTAINERS)))"

text \<open>
  The \<^verbatim>\<open>Map<Item, Quantity>\<close> that \<^verbatim>\<open>TransferContainerNode.maintain\<close> builds is an association
  list in insertion order; \<open>Map_add\<close> is the \<^verbatim>\<open>has\<close>/\<^verbatim>\<open>get\<close>/\<^verbatim>\<open>set\<close> step of the inner loop.
\<close>

definition Map_set :: "'k \<Rightarrow> 'v \<Rightarrow> ('k \<times> 'v) list \<Rightarrow> ('k \<times> 'v) list" where
  "Map_set k v m =
     (if k \<in> fst ` set m then map (\<lambda>(k', v'). if k' = k then (k', v) else (k', v')) m
      else m @ [(k, v)])"

definition Map_add :: "Item \<Rightarrow> rat \<Rightarrow> (Item \<times> rat) list \<Rightarrow> (Item \<times> rat) list" where
  "Map_add it q m =
     (case map_of m it of
        Some old \<Rightarrow> Map_set it (old + q) m
      | None \<Rightarrow> Map_set it q m)"

definition maintainIngredients :: "Item \<Rightarrow> ItemQuantity list \<Rightarrow> (Item \<times> rat) list \<Rightarrow> (Item \<times> rat) list" where
  "maintainIngredients it ings m0 =
     foldl (\<lambda>m ingredient.
              if ItemQuantity.item ingredient = it
              then Map_add it (ItemQuantity.quantity ingredient) m else m)
           m0 ings"

fun maintainConsumers ::
  "RecipeLookup \<Rightarrow> Store \<Rightarrow> Item \<Rightarrow> nat list \<Rightarrow> (Item \<times> rat) list \<Rightarrow> error + (Item \<times> rat) list" where
  "maintainConsumers findRecipe s it [] m = Inr m"
| "maintainConsumers findRecipe s it (i # cs) m =
     (case findRecipe (IndustryNode_item (industryNodes s i)) of
        None \<Rightarrow> Inl NoRecipe
      | Some r \<Rightarrow> maintainConsumers findRecipe s it cs (maintainIngredients it (Recipe.ingredients r) m))"

fun maintainItems ::
  "RecipeLookup \<Rightarrow> Store \<Rightarrow> nat list \<Rightarrow> Item list \<Rightarrow> (Item \<times> rat) list \<Rightarrow> error + (Item \<times> rat) list" where
  "maintainItems findRecipe s cs [] m = Inr m"
| "maintainItems findRecipe s cs (it # its) m =
     (case maintainConsumers findRecipe s it cs m of
        Inl e \<Rightarrow> Inl e
      | Inr m' \<Rightarrow> maintainItems findRecipe s cs its m')"

definition TransferContainerNode_maintain ::
  "RecipeLookup \<Rightarrow> Store \<Rightarrow> TransferContainerNode \<Rightarrow> error + (Item \<times> rat) list" where
  "TransferContainerNode_maintain findRecipe s c =
     maintainItems findRecipe s (TransferContainerNode.consumers c) (TransferContainerNode.items c) []"

definition TransferContainerNode_container ::
  "RecipeLookup \<Rightarrow> ContainerElement list \<Rightarrow> Store \<Rightarrow> TransferContainerNode \<Rightarrow> error + ContainerElement" where
  "TransferContainerNode_container findRecipe CONTAINERS s c =
     (if length CONTAINERS < 1 then Inl CatalogEmpty
      else (case TransferContainerNode_maintain findRecipe s c of
              Inl e \<Rightarrow> Inl e
            | Inr m \<Rightarrow>
                Inr (selectContainer
                       (foldl (\<lambda>requiredCapacity (it, q). requiredCapacity + q * Item.volume it) 0 m)
                       (CONTAINERS ! 0) CONTAINERS)))"

subsection \<open>Rates of relays and buffers\<close>

text \<open>
  \<^verbatim>\<open>outflowRate\<close> of a relay asks every relay that draws from its output buffer for
  \<^verbatim>\<open>inflowRatePerContainer\<close>, which asks that relay for its \<^verbatim>\<open>outflowRate\<close>, and so on along
  the chain of relays. The source has no bound on this recursion, so the model runs on
  fuel: one unit per \<^verbatim>\<open>outflowRate\<close> call on the stack. \<open>None\<close> means that the fuel ran out;
  a call that yields \<open>None\<close> for every amount of fuel does not return in the source.
  \<open>Some (Inl e)\<close> is a raised error, \<open>Some (Inr x)\<close> the returned number.
\<close>

type_synonym rate_result = "(error + jsnum) option"

definition transferRate :: jsnum where
  "transferRate = PInf"

fun BufferRef_consumers :: "Store \<Rightarrow> BufferRef \<Rightarrow> NodeRef list" where
  "BufferRef_consumers s (ContainerRef c) = ContainerNode.consumers (containerNodes s c)"
| "BufferRef_consumers s (TransferContainerRef c) =
     map IndustryRef (TransferContainerNode.consumers (transferContainerNodes s c))"

text \<open>The division \<^verbatim>\<open>this.outflowRate / this.inputs.size\<close>, applied to the result of the getter.\<close>

fun dividedByInputs :: "TransferNode \<Rightarrow> rate_result \<Rightarrow> rate_result" where
  "dividedByInputs n None = None"
| "dividedByInputs n (Some (Inl e)) = Some (Inl e)"
| "dividedByInputs n (Some (Inr x)) =
     Some (Inr (js_div x (Fin (of_nat (length (TransferNode.inputs n))))))"

text \<open>The loop of \<^verbatim>\<open>outflowRate\<close> over the consumers of the output buffer.\<close>

fun consumptionLoop ::
  "(nat \<Rightarrow> rate_result) \<Rightarrow> RecipeLookup \<Rightarrow> Store \<Rightarrow> Item \<Rightarrow> NodeRef list \<Rightarrow> jsnum \<Rightarrow> rate_result" where
  "consumptionLoop inflow findRecipe s it [] consumptionRate = Some (Inr consumptionRate)"
| "consumptionLoop inflow findRecipe s it (IndustryRef i # cs) consumptionRate =
     (case getInput findRecipe (industryNodes s i) it of
        Inl e \<Rightarrow> Some (Inl e)
      | Inr x \<Rightarrow> consumptionLoop inflow findRecipe s it cs (js_add consumptionRate x))"
| "consumptionLoop inflow findRecipe s it (TransferRef t # cs) consumptionRate =
     (case inflow t of
        None \<Rightarrow> None
      | Some (Inl e) \<Rightarrow> Some (Inl e)
      | Some (Inr x) \<Rightarrow> consumptionLoop inflow findRecipe s it cs (js_add consumptionRate x))"

primrec outflowRate :: "nat \<Rightarrow> RecipeLookup \<Rightarrow> Store \<Rightarrow> nat \<Rightarrow> rate_result" where
  "outflowRate 0 findRecipe s t = None"
| "outflowRate (Suc fuel) findRecipe s t =
     (case (case TransferNode.output (transferNodes s t) of
              None \<Rightarrow> Some (Inr (Fin 0))
            | Some b \<Rightarrow>
                consumptionLoop
                  (\<lambda>t'. dividedByInputs (transferNodes s t') (outflowRate fuel findRecipe s t'))
                  findRecipe s (TransferNode.item (transferNodes s t))
                  (BufferRef_consumers s b) (Fin 0)) of
        None \<Rightarrow> None
      | Some (Inl e) \<Rightarrow> Some (Inl e)
      | Some (Inr consumptionRate) \<Rightarrow> Some (Inr (js_min consumptionRate transferRate)))"

definition inflowRatePerContainer :: "nat \<Rightarrow> RecipeLookup \<Rightarrow> Store \<Rightarrow> nat \<Rightarrow> rate_result" where
  "inflowRatePerContainer fuel findRecipe s t =
     dividedByInputs (transferNodes s t) (outflowRate fuel findRecipe s t)"

text \<open>
  \<^verbatim>\<open>Array.from(set).map(f)\<close> calls \<open>f\<close> on the elements in order; the first call that raises
  or does not return decides the outcome.
\<close>

fun collect :: "rate_result list \<Rightarrow> (error + jsnum list) option" where
  "collect [] = Some (Inr [])"
| "collect (None # rs) = None"
| "collect (Some (Inl e) # rs) = Some (Inl e)"
| "collect (Some (Inr x) # rs) =
     (case collect rs of
        None \<Rightarrow> None
      | Some (Inl e) \<Rightarrow> Some (Inl e)
      | Some (Inr xs) \<Rightarrow> Some (Inr (x # xs)))"

fun sumRates :: "(error + jsnum list) option \<Rightarrow> rate_result" where
  "sumRates None = None"
| "sumRates (Some (Inl e)) = Some (Inl e)"
| "sumRates (Some (Inr xs)) = Some (Inr (foldl js_add (Fin 0) xs))"

fun ingressOf :: "nat \<Rightarrow> RecipeLookup \<Rightarrow> Store \<Rightarrow> Item \<Rightarrow> NodeRef \<Rightarrow> rate_result" where
  "ingressOf fuel findRecipe s it (IndustryRef i) = Some (getOutput findRecipe (industryNodes s i) it)"
| "ingressOf fuel findRecipe s it (TransferRef t) =
     (if TransferNode.item (transferNodes s t) = it then outflowRate fuel findRecipe s t
      else Some (Inr (Fin 0)))"

definition ingress :: "nat \<Rightarrow> RecipeLookup \<Rightarrow> Store \<Rightarrow> ContainerNode \<Rightarrow> rate_result" where
  "ingress fuel findRecipe s c =
     (if isOre (ContainerNode.item c) then Some (Inr PInf)
      else sumRates (collect (map (ingressOf fuel findRecipe s (ContainerNode.item c))
                                  (ContainerNode.producers c))))"

fun egressOf :: "nat \<Rightarrow> RecipeLookup \<Rightarrow> Store \<Rightarrow> ContainerNode \<Rightarrow> NodeRef \<Rightarrow> rate_result" where
  "egressOf fuel findRecipe s c (IndustryRef i) =
     (case getInput findRecipe (industryNodes s i) (ContainerNode.item c) of
        Inl e \<Rightarrow> Some (Inl e)
      | Inr x \<Rightarrow> Some (Inr (js_mul (Fin (ContainerNode.split c)) x)))"
| "egressOf fuel findRecipe s c (TransferRef t) =
     (if TransferNode.item (transferNodes s t) = ContainerNode.item c
      then inflowRatePerContainer fuel findRecipe s t
      else Some (Inr (Fin 0)))"

definition egress_base :: "nat \<Rightarrow> RecipeLookup \<Rightarrow> Store \<Rightarrow> ContainerNode \<Rightarrow> rate_result" where
  "egress_base fuel findRecipe s c =
     sumRates (collect (map (egressOf fuel findRecipe s c) (ContainerNode.consumers c)))"

definition egress :: "nat \<Rightarrow> RecipeLookup \<Rightarrow> Store \<Rightarrow> ContainerNode \<Rightarrow> rate_result" where
  "egress fuel findRecipe s c =
     (case ContainerNode.asOutput c of
        None \<Rightarrow> egress_base fuel findRecipe s c
      | Some out \<Rightarrow>
          (case egress_base fuel findRecipe s c of
             None \<Rightarrow> None
           | Some (Inl e) \<Rightarrow> Some (Inl e)
           | Some (Inr x) \<Rightarrow> Some (Inr (js_add x (Fin (OutputNode.outputRate out))))))"

subsection \<open>Wiring\<close>

text \<open>
  A method that mutates the objects it reaches takes the store and returns the new one.
  The three statements of \<^verbatim>\<open>outputTo\<close> are three successive stores.
\<close>

definition updContainer :: "nat \<Rightarrow> (ContainerNode \<Rightarrow> ContainerNode) \<Rightarrow> Store \<Rightarrow> Store" where
  "updContainer c f s = s\<lparr>containerNodes := (containerNodes s)(c := f (containerNodes s c))\<rparr>"

definition updTransferContainer ::
  "nat \<Rightarrow> (TransferContainerNode \<Rightarrow> TransferContainerNode) \<Rightarrow> Store \<Rightarrow> Store" where
  "updTransferContainer c f s =
     s\<lparr>transferContainerNodes := (transferContainerNodes s)(c := f (transferContainerNodes s c))\<rparr>"

definition updIndustry :: "nat \<Rightarrow> (IndustryNode \<Rightarrow> IndustryNode) \<Rightarrow> Store \<Rightarrow> Store" where
  "updIndustry i f s = s\<lparr>industryNodes := (industryNodes s)(i := f (industryNodes s i))\<rparr>"

definition updTransfer :: "nat \<Rightarrow> (TransferNode \<Rightarrow> TransferNode) \<Rightarrow> Store \<Rightarrow> Store" where
  "updTransfer t f s = s\<lparr>transferNodes := (transferNodes s)(t := f (transferNodes s t))\<rparr>"

text \<open>\<^verbatim>\<open>container.consumers.add(this)\<close> and the two operations on \<^verbatim>\<open>producers\<close>, by the class
  of the buffer and of the caller.\<close>

fun addConsumer :: "NodeRef \<Rightarrow> BufferRef \<Rightarrow> Store \<Rightarrow> Store" where
  "addConsumer u (ContainerRef c) s =
     updContainer c (\<lambda>n. n\<lparr>ContainerNode.consumers := Set_add u (ContainerNode.consumers n)\<rparr>) s"
| "addConsumer (IndustryRef i) (TransferContainerRef c) s =
     updTransferContainer c
       (\<lambda>n. n\<lparr>TransferContainerNode.consumers := Set_add i (TransferContainerNode.consumers n)\<rparr>) s"
| "addConsumer (TransferRef t) (TransferContainerRef c) s = s"

fun addProducer :: "NodeRef \<Rightarrow> BufferRef \<Rightarrow> Store \<Rightarrow> Store" where
  "addProducer u (ContainerRef c) s =
     updContainer c (\<lambda>n. n\<lparr>ContainerNode.producers := Set_add u (ContainerNode.producers n)\<rparr>) s"
| "addProducer (TransferRef t) (TransferContainerRef c) s =
     updTransferContainer c
       (\<lambda>n. n\<lparr>TransferContainerNode.producers := Set_add t (TransferContainerNode.producers n)\<rparr>) s"
| "addProducer (IndustryRef i) (TransferContainerRef c) s = s"

fun deleteProducer :: "NodeRef \<Rightarrow> BufferRef \<Rightarrow> Store \<Rightarrow> Store" where
  "deleteProducer u (ContainerRef c) s =
     updContainer c (\<lambda>n. n\<lparr>ContainerNode.producers := Set_delete u (ContainerNode.producers n)\<rparr>) s"
| "deleteProducer (TransferRef t) (TransferContainerRef c) s =
     updTransferContainer c
       (\<lambda>n. n\<lparr>TransferContainerNode.producers := Set_delete t (TransferContainerNode.producers n)\<rparr>) s"
| "deleteProducer (IndustryRef i) (TransferContainerRef c) s = s"

text \<open>
  The types of the source exclude the third equation of each of the three functions: a
  relay takes from a \<^verbatim>\<open>ContainerNode\<close> only and an industry writes to a \<^verbatim>\<open>ContainerNode\<close> only.
  The wiring methods below never reach it.
\<close>

definition IndustryNode_takeFrom :: "nat \<Rightarrow> BufferRef \<Rightarrow> Store \<Rightarrow> Store" where
  "IndustryNode_takeFrom i container s =
     (let s1 = updIndustry i (\<lambda>n. n\<lparr>IndustryNode.inputs := Set_add container (IndustryNode.inputs n)\<rparr>) s
      in addConsumer (IndustryRef i) container s1)"

definition IndustryNode_outputTo :: "nat \<Rightarrow> nat \<Rightarrow> Store \<Rightarrow> Store" where
  "IndustryNode_outputTo i container s =
     (let s1 = (case IndustryNode.output (industryNodes s i) of
                  Some old \<Rightarrow> deleteProducer (IndustryRef i) (ContainerRef old) s
                | None \<Rightarrow> s);
          s2 = updIndustry i (\<lambda>n. n\<lparr>IndustryNode.output := Some container\<rparr>) s1
      in addProducer (IndustryRef i) (ContainerRef container) s2)"

definition TransferNode_takeFrom :: "nat \<Rightarrow> nat \<Rightarrow> Store \<Rightarrow> Store" where
  "TransferNode_takeFrom t container s =
     (let s1 = updTransfer t (\<lambda>n. n\<lparr>TransferNode.inputs := Set_add container (TransferNode.inputs n)\<rparr>) s
      in addConsumer (TransferRef t) (ContainerRef container) s1)"

definition TransferNode_outputTo :: "nat \<Rightarrow> BufferRef \<Rightarrow> Store \<Rightarrow> Store" where
  "TransferNode_outputTo t container s =
     (let s1 = (case TransferNode.output (transferNodes s t) of
                  Some old \<Rightarrow> deleteProducer (TransferRef t) old s
                | None \<Rightarrow> s);
          s2 = updTransfer t (\<lambda>n. n\<lparr>TransferNode.output := Some container\<rparr>) s1
      in addProducer (TransferRef t) container s2)"

subsection \<open>The graph and its query for transfer containers\<close>

text \<open>The five sets of \<^verbatim>\<open>FactoryGraph\<close> hold references into the store.\<close>

record FactoryGraph =
  containers :: "nat list"
  industries :: "nat list"
  transferUnits :: "nat list"
  transferContainers :: "nat list"
  temporaryContainers :: "nat list"

text \<open>
  \<^verbatim>\<open>getTransferContainers\<close>: the argument is \<^verbatim>\<open>Array.from(items)\<close>, the result the content of
  the returned set, in order. \<^verbatim>\<open>includes\<close> is membership in the list, \<^verbatim>\<open>some\<close> is \<open>list_ex\<close>.
\<close>

definition getTransferContainers :: "FactoryGraph \<Rightarrow> Store \<Rightarrow> Item list \<Rightarrow> nat list" where
  "getTransferContainers g s its =
     (let transferContainers1 =
            filter (\<lambda>node. list_ex (\<lambda>it. it \<in> set its)
                                    (TransferContainerNode.items (transferContainerNodes s node)))
                   (FactoryGraph.transferContainers g);
          transferContainers2 =
            filter (\<lambda>node. list_ex (\<lambda>it. it \<notin> set (TransferContainerNode.items
                                                          (transferContainerNodes s node)))
                                    its)
                   transferContainers1
      in transferContainers2)"

subsection \<open>Edges, seen from both ends\<close>

text \<open>
  The four relations between a unit (industry or relay) and a buffer that the two ends of
  an edge record: membership in the buffer's \<^verbatim>\<open>producers\<close> and \<^verbatim>\<open>consumers\<close>, the unit's
  \<^verbatim>\<open>output\<close> and membership in the unit's \<^verbatim>\<open>inputs\<close>. The producers of a
  \<^verbatim>\<open>TransferContainerNode\<close> are relays and its consumers industries; a relay's inputs are
  \<^verbatim>\<open>ContainerNode\<close>s, an industry's output is a \<^verbatim>\<open>ContainerNode\<close>.
\<close>

fun producer_of :: "Store \<Rightarrow> NodeRef \<Rightarrow> BufferRef \<Rightarrow> bool" where
  "producer_of s u (ContainerRef c) = (u \<in> set (ContainerNode.producers (containerNodes s c)))"
| "producer_of s (TransferRef t) (TransferContainerRef c) =
     (t \<in> set (TransferContainerNode.producers (transferContainerNodes s c)))"
| "producer_of s (IndustryRef i) (TransferContainerRef c) = False"

fun consumer_of :: "Store \<Rightarrow> NodeRef \<Rightarrow> BufferRef \<Rightarrow> bool" where
  "consumer_of s u (ContainerRef c) = (u \<in> set (ContainerNode.consumers (containerNodes s c)))"
| "consumer_of s (IndustryRef i) (TransferContainerRef c) =
     (i \<in> set (TransferContainerNode.consumers (transferContainerNodes s c)))"
| "consumer_of s (TransferRef t) (TransferContainerRef c) = False"

fun output_of :: "Store \<Rightarrow> NodeRef \<Rightarrow> BufferRef option" where
  "output_of s (IndustryRef i) = map_option ContainerRef (IndustryNode.output (industryNodes s i))"
| "output_of s (TransferRef t) = TransferNode.output (transferNodes s t)"

fun input_of :: "Store \<Rightarrow> NodeRef \<Rightarrow> BufferRef \<Rightarrow> bool" where
  "input_of s (IndustryRef i) b = (b \<in> set (IndustryNode.inputs (industryNodes s i)))"
| "input_of s (TransferRef t) (ContainerRef c) = (c \<in> set (TransferNode.inputs (transferNodes s t)))"
| "input_of s (TransferRef t) (TransferContainerRef c) = False"

fun BufferRef_incomingLinkCount :: "Store \<Rightarrow> BufferRef \<Rightarrow> nat" where
  "BufferRef_incomingLinkCount s (ContainerRef c) =
     ContainerNode_incomingLinkCount (containerNodes s c)"
| "BufferRef_incomingLinkCount s (TransferContainerRef c) =
     TransferContainerNode_incomingLinkCount (transferContainerNodes s c)"

definition edge_symmetric :: "Store \<Rightarrow> bool" where
  "edge_symmetric s =
     (\<forall>u b. producer_of s u b = (output_of s u = Some b) \<and> consumer_of s u b = input_of s u b)"

text \<open>The lists that stand for sets hold no element twice.\<close>

definition sets_distinct :: "Store \<Rightarrow> bool" where
  "sets_distinct s =
     (\<forall>k. distinct (ContainerNode.producers (containerNodes s k)) \<and>
          distinct (ContainerNode.consumers (containerNodes s k)) \<and>
          distinct (TransferContainerNode.producers (transferContainerNodes s k)) \<and>
          distinct (TransferContainerNode.consumers (transferContainerNodes s k)) \<and>
          distinct (IndustryNode.inputs (industryNodes s k)) \<and>
          distinct (TransferNode.inputs (transferNodes s k)))"

text \<open>
  A store of freshly constructed nodes: the constructors leave every set empty and every
  output undefined. Creating a node touches no other node, so the states that a planner
  reaches are those that the four wiring methods reach from such a store.
\<close>

definition unwired :: "Store \<Rightarrow> bool" where
  "unwired s =
     (\<forall>k. ContainerNode.producers (containerNodes s k) = [] \<and>
          ContainerNode.consumers (containerNodes s k) = [] \<and>
          TransferContainerNode.producers (transferContainerNodes s k) = [] \<and>
          TransferContainerNode.consumers (transferContainerNodes s k) = [] \<and>
          IndustryNode.inputs (industryNodes s k) = [] \<and>
          IndustryNode.output (industryNodes s k) = None \<and>
          TransferNode.inputs (transferNodes s k) = [] \<and>
          TransferNode.output (transferNodes s k) = None)"

inductive reachable :: "Store \<Rightarrow> bool" where
  constructed: "unwired s \<Longrightarrow> reachable s"
| industry_takeFrom: "reachable s \<Longrightarrow> reachable (IndustryNode_takeFrom i b s)"
| industry_outputTo: "reachable s \<Longrightarrow> reachable (IndustryNode_outputTo i c s)"
| transfer_takeFrom: "reachable s \<Longrightarrow> reachable (TransferNode_takeFrom t c s)"
| transfer_outputTo: "reachable s \<Longrightarrow> reachable (TransferNode_outputTo t b s)"

subsection \<open>A small factory\<close>

text \<open>
  The concrete catalog and store on which the theorems below are evaluated: item \<open>X\<close> is
  made from two \<open>Y\<close> in ten time units, item \<open>P\<close> is refined with \<open>Y\<close> as its only
  byproduct, and there are two capacity tiers.
\<close>

definition mkItem :: "string \<Rightarrow> Item" where
  "mkItem nm = \<lparr>Item.name = nm, volume = 1, ore = False\<rparr>"

definition recipeX :: Recipe where
  "recipeX = \<lparr>ingredients = [\<lparr>ItemQuantity.item = mkItem ''Y'', quantity = 2\<rparr>],
              byproducts = [],
              product = \<lparr>ItemQuantity.item = mkItem ''X'', quantity = 1\<rparr>,
              time = 10, industry = ''assembler''\<rparr>"

definition recipeP :: Recipe where
  "recipeP = \<lparr>ingredients = [\<lparr>ItemQuantity.item = mkItem ''O'', quantity = 65\<rparr>],
              byproducts = [\<lparr>ItemQuantity.item = mkItem ''Y'', quantity = 5\<rparr>],
              product = \<lparr>ItemQuantity.item = mkItem ''P'', quantity = 45\<rparr>,
              time = 25, industry = ''refiner''\<rparr>"

definition recipesXP :: RecipeLookup where
  "recipesXP it =
     (if it = mkItem ''X'' then Some recipeX
      else if it = mkItem ''P'' then Some recipeP else None)"

definition tierS :: ContainerElement where
  "tierS = \<lparr>ContainerElement.name = ''Container S'', capacity = 1000\<rparr>"

definition tierM :: ContainerElement where
  "tierM = \<lparr>ContainerElement.name = ''Container M'', capacity = 8000\<rparr>"

text \<open>
  Freshly constructed nodes: buffer 0 holds \<open>Y\<close> and every other buffer holds \<open>P\<close>, every
  industry makes \<open>X\<close>, every relay moves \<open>Y\<close>; the multi-item buffer 1 holds \<open>A\<close> and
  \<open>D\<close>, the multi-item buffer 2 holds \<open>Y\<close>, every other one holds \<open>A\<close> and \<open>B\<close>.
\<close>

definition store0 :: Store where
  "store0 =
     \<lparr>containerNodes =
        (\<lambda>k. \<lparr>ContainerNode.name = [], item = (if k = 0 then mkItem ''Y'' else mkItem ''P''),
               split = 1, producers = [], consumers = [], asOutput = None\<rparr>),
      transferContainerNodes =
        (\<lambda>k. \<lparr>TransferContainerNode.name = [],
               items = (if k = 1 then [mkItem ''A'', mkItem ''D'']
                        else if k = 2 then [mkItem ''Y'']
                        else [mkItem ''A'', mkItem ''B'']),
               producers = [], consumers = []\<rparr>),
      industryNodes =
        (\<lambda>k. \<lparr>IndustryNode.name = [], recipe = recipeX, inputs = [], output = None\<rparr>),
      transferNodes =
        (\<lambda>k. \<lparr>TransferNode.name = [], item = mkItem ''Y'', inputs = [], output = None\<rparr>)\<rparr>"

text \<open>The graph that owns the multi-item buffers 0 and 1.\<close>

definition graph0 :: FactoryGraph where
  "graph0 = \<lparr>containers = [0, 1], industries = [0], transferUnits = [0, 1, 2],
             transferContainers = [0, 1], temporaryContainers = []\<rparr>"

text \<open>Industry 0 draws \<open>Y\<close> from buffer 0 and from the multi-item buffer 2.\<close>

definition industryFed :: Store where
  "industryFed =
     IndustryNode_takeFrom 0 (TransferContainerRef 2) (IndustryNode_takeFrom 0 (ContainerRef 0) store0)"

text \<open>The relays 1 and 2 both carry the byproduct \<open>Y\<close> away from buffer 1, which holds \<open>P\<close>.\<close>

definition twoRelaysOnByproduct :: Store where
  "twoRelaysOnByproduct = TransferNode_takeFrom 2 1 (TransferNode_takeFrom 1 1 store0)"

text \<open>Relay 0 draws from buffer 0 and writes back to it.\<close>

definition relayLoop :: Store where
  "relayLoop = TransferNode_outputTo 0 (ContainerRef 0) (TransferNode_takeFrom 0 0 store0)"

text \<open>Industry 0 and relay 0 both write to buffer 0.\<close>

definition twoProducers :: Store where
  "twoProducers = TransferNode_outputTo 0 (ContainerRef 0) (IndustryNode_outputTo 0 0 store0)"

text \<open>
  Relay 0 moves \<open>Y\<close> from buffer 0 to buffer 1, relay 1 moves it on to the multi-item
  buffer 2, from which industry 0 draws.
\<close>

definition relayChain :: Store where
  "relayChain =
     IndustryNode_takeFrom 0 (TransferContainerRef 2)
       (TransferNode_outputTo 1 (TransferContainerRef 2)
          (TransferNode_takeFrom 1 1
             (TransferNode_outputTo 0 (ContainerRef 1)
                (TransferNode_takeFrom 0 0 store0))))"

text \<open>
  A recipe that takes no time, the catalog that holds it and an industry that runs it.
\<close>

definition recipeInstant :: Recipe where
  "recipeInstant = \<lparr>ingredients = [], byproducts = [],
                    product = \<lparr>ItemQuantity.item = mkItem ''Z'', quantity = 1\<rparr>,
                    time = 0, industry = ''assembler''\<rparr>"

definition recipesInstant :: RecipeLookup where
  "recipesInstant it = (if it = mkItem ''Z'' then Some recipeInstant else None)"

definition industryInstant :: IndustryNode where
  "industryInstant = \<lparr>IndustryNode.name = [], recipe = recipeInstant, inputs = [],
                      output = None\<rparr>"

subsection \<open>Conditions on the catalog and on the relays\<close>

text \<open>
  The constructor of \<^verbatim>\<open>IndustryNode\<close> resolves the recipe of the product; the getters
  resolve it again from \<^verbatim>\<open>this.item\<close>. \<open>recipes_resolve\<close> says that this second lookup finds
  a recipe for every industry of the store.
\<close>

definition recipes_resolve :: "RecipeLookup \<Rightarrow> Store \<Rightarrow> bool" where
  "recipes_resolve findRecipe s = (\<forall>i. findRecipe (IndustryNode_item (industryNodes s i)) \<noteq> None)"

text \<open>
  No chain of relays runs in a cycle: some rank falls along every step from a relay to a
  relay that draws from the buffer the first one writes to.
\<close>

definition relays_ranked :: "Store \<Rightarrow> (nat \<Rightarrow> nat) \<Rightarrow> bool" where
  "relays_ranked s rank =
     (\<forall>t c t'. TransferNode.output (transferNodes s t) = Some (ContainerRef c)
               \<longrightarrow> TransferRef t' \<in> set (ContainerNode.consumers (containerNodes s c))
               \<longrightarrow> rank t' < rank t)"

text \<open>An amount of fuel above the rank of every relay of a list.\<close>

definition enough :: "(nat \<Rightarrow> nat) \<Rightarrow> NodeRef list \<Rightarrow> nat" where
  "enough rank us =
     Suc (sum_list (map (\<lambda>u. case u of IndustryRef i \<Rightarrow> 0 | TransferRef t \<Rightarrow> rank t) us))"

section \<open>Properties\<close>

subsection \<open>Sets as lists\<close>

lemmas upd_defs = updContainer_def updTransferContainer_def updIndustry_def updTransfer_def

lemmas wiring_defs =
  IndustryNode_takeFrom_def IndustryNode_outputTo_def TransferNode_takeFrom_def
  TransferNode_outputTo_def upd_defs Set_add_def Set_delete_def

lemma in_Set_add [simp]: "y \<in> set (Set_add x xs) \<longleftrightarrow> y = x \<or> y \<in> set xs"
  by (auto simp: Set_add_def)

lemma in_Set_delete [simp]: "y \<in> set (Set_delete x xs) \<longleftrightarrow> y \<noteq> x \<and> y \<in> set xs"
  by (auto simp: Set_delete_def)

lemma distinct_Set_add [simp]: "distinct xs \<Longrightarrow> distinct (Set_add x xs)"
  by (auto simp: Set_add_def)

lemma distinct_Set_delete [simp]: "distinct xs \<Longrightarrow> distinct (Set_delete x xs)"
  by (auto simp: Set_delete_def distinct_removeAll)

lemma length_Set_delete:
  assumes "distinct xs" and "x \<in> set xs"
  shows "Suc (length (Set_delete x xs)) = length xs"
proof -
  have "Set_delete x xs = remove1 x xs"
    using assms(1) by (simp add: Set_delete_def distinct_remove1_removeAll)
  moreover have "0 < length xs"
    using assms(2) by (rule length_pos_if_in_set)
  ultimately show ?thesis
    using assms(2) by (simp add: length_remove1)
qed

lemma length_Set_add: "x \<notin> set xs \<Longrightarrow> length (Set_add x xs) = Suc (length xs)"
  by (simp add: Set_add_def)

subsection \<open>The required container\<close>

text \<open>
  The loop has no exit: whenever the last tier of the catalog is large enough, the last
  tier is the result, whatever the tiers before it are.
\<close>

lemma selectContainer_last:
  assumes "tiers \<noteq> []" and "requiredCapacity \<le> ContainerElement.capacity (last tiers)"
  shows "selectContainer requiredCapacity first tiers = last tiers"
proof -
  from assms(1) obtain ys y where t: "tiers = ys @ [y]"
    by (cases tiers rule: rev_cases) auto
  with assms(2) show ?thesis
    by (simp add: selectContainer_def)
qed

text \<open>
  C1. The claim is that \<^verbatim>\<open>container\<close> returns the smallest tier that covers the required
  capacity. The code does not: industry 0 needs two \<open>Y\<close> per cycle from buffer 0 and from
  the multi-item buffer 2, the required capacity of either buffer is 2, the tier of
  capacity 1000 covers it, and both getters return the tier of capacity 8000.
\<close>

theorem container_returns_largest_tier:
  "ContainerNode_maintain recipesXP industryFed (containerNodes industryFed 0) = Inr 2
 \<and> Item.volume (ContainerNode.item (containerNodes industryFed 0)) = 1
 \<and> ContainerElement.capacity tierS = 1000
 \<and> ContainerNode_container recipesXP [tierS, tierM] industryFed (containerNodes industryFed 0)
      = Inr tierM
 \<and> TransferContainerNode_maintain recipesXP industryFed (transferContainerNodes industryFed 2)
      = Inr [(mkItem ''Y'', 2)]
 \<and> TransferContainerNode_container recipesXP [tierS, tierM] industryFed
        (transferContainerNodes industryFed 2)
      = Inr tierM
 \<and> tierM \<noteq> tierS"
  by (simp add: industryFed_def store0_def wiring_defs ContainerNode_container_def
      ContainerNode_maintain_def ContainerNode_maintain_base_def
      TransferContainerNode_container_def TransferContainerNode_maintain_def
      maintainIngredients_def Map_add_def Map_set_def recipesXP_def recipeX_def mkItem_def
      IndustryNode_item_def addMatching_def selectContainer_def tierS_def tierM_def)

subsection \<open>The query for transfer containers\<close>

text \<open>
  C2. The claim is that \<^verbatim>\<open>getTransferContainers(S)\<close> returns the multi-item buffers that
  hold an item of \<open>S\<close> and no item outside \<open>S\<close>. The code does not: its second filter keeps
  a buffer when \<open>S\<close> has an item that the buffer lacks. Of buffer 0, holding \<open>A\<close> and \<open>B\<close>,
  and buffer 1, holding \<open>A\<close> and \<open>D\<close>, the query for \<open>A\<close> and \<open>B\<close> returns buffer 1 alone.
\<close>

theorem getTransferContainers_misses_exact_match:
  "getTransferContainers graph0 store0 [mkItem ''A'', mkItem ''B''] = [1]
 \<and> getTransferContainers graph0 store0 [mkItem ''A'', mkItem ''B'', mkItem ''C''] = [0, 1]
 \<and> getTransferContainers graph0 store0 [mkItem ''A''] = []
 \<and> TransferContainerNode.items (transferContainerNodes store0 0) = [mkItem ''A'', mkItem ''B'']
 \<and> TransferContainerNode.items (transferContainerNodes store0 1) = [mkItem ''A'', mkItem ''D'']"
  by (simp add: getTransferContainers_def graph0_def store0_def mkItem_def)

subsection \<open>Link-capacity checks\<close>

text \<open>
  C3. The claim is that a byproduct with a consumer gives back its one reserved slot,
  however many consumers it has. The code takes one slot off per consumer: buffer 1 holds
  \<open>P\<close>, whose recipe has the one byproduct \<open>Y\<close>, and the two relays that draw from it both
  carry \<open>Y\<close>, so the counter is \<open>1 - 2\<close> and nine more links are accepted on top of the two,
  eleven in all.
\<close>

theorem canAddOutgoingLinks_releases_per_consumer:
  "ContainerNode_outgoingLinkCount (containerNodes twoRelaysOnByproduct 1) = 2
 \<and> ContainerNode.consumers (containerNodes twoRelaysOnByproduct 1) = [TransferRef 1, TransferRef 2]
 \<and> reservedByproductLinks twoRelaysOnByproduct
      (ContainerNode.consumers (containerNodes twoRelaysOnByproduct 1)) (Recipe.byproducts recipeP)
      = - 1
 \<and> ContainerNode_canAddOutgoingLinks recipesXP twoRelaysOnByproduct
      (containerNodes twoRelaysOnByproduct 1) 9 = Inr True"
  by (simp add: twoRelaysOnByproduct_def store0_def wiring_defs
      ContainerNode_canAddOutgoingLinks_def isSplit_def isOre_def reservedByproductLinks_def
      recipesXP_def recipeP_def mkItem_def ContainerNode_outgoingLinkCount_def
      MAX_CONTAINER_LINKS_def)

text \<open>
  C6. A buffer whose split fraction is not 1 answers \<^verbatim>\<open>false\<close> to \<^verbatim>\<open>canAddOutgoingLinks\<close>
  for every count, whatever it holds and whoever draws from it.
\<close>

theorem split_container_refuses_outgoing_links:
  "ContainerNode.split c \<noteq> 1 \<Longrightarrow>
   ContainerNode_canAddOutgoingLinks findRecipe s c n = Inr False"
  by (simp add: ContainerNode_canAddOutgoingLinks_def isSplit_def)

theorem split_container_refuses_outgoing_links_witness:
  "ContainerNode_canAddOutgoingLinks recipesXP store0
     ((containerNodes store0 1)\<lparr>ContainerNode.split := 1 / 2\<rparr>) 1 = Inr False"
  using split_container_refuses_outgoing_links
    [of "(containerNodes store0 1)\<lparr>ContainerNode.split := 1 / 2\<rparr>" recipesXP store0 1]
  by simp

text \<open>
  C7. \<^verbatim>\<open>canAddIncomingLinks(n)\<close> holds iff the incoming link count plus \<open>n\<close> is at most 10
  for a buffer of either class and at most 7 for an industry or a relay. So one more link
  is accepted at 9 (at 6) and refused at 10 (at 7).
\<close>

theorem canAddIncomingLinks_limits:
  "ContainerNode_canAddIncomingLinks c n = (int (ContainerNode_incomingLinkCount c) + n \<le> 10)
 \<and> TransferContainerNode_canAddIncomingLinks m n
      = (int (TransferContainerNode_incomingLinkCount m) + n \<le> 10)
 \<and> IndustryNode_canAddIncomingLinks p n = (int (IndustryNode_incomingLinkCount p) + n \<le> 7)
 \<and> TransferNode_canAddIncomingLinks r n = (int (TransferNode_incomingLinkCount r) + n \<le> 7)
 \<and> (ContainerNode_incomingLinkCount c = 9 \<longrightarrow> ContainerNode_canAddIncomingLinks c 1)
 \<and> (ContainerNode_incomingLinkCount c = 10 \<longrightarrow> \<not> ContainerNode_canAddIncomingLinks c 1)
 \<and> (TransferContainerNode_incomingLinkCount m = 9
      \<longrightarrow> TransferContainerNode_canAddIncomingLinks m 1)
 \<and> (TransferContainerNode_incomingLinkCount m = 10
      \<longrightarrow> \<not> TransferContainerNode_canAddIncomingLinks m 1)
 \<and> (IndustryNode_incomingLinkCount p = 6 \<longrightarrow> IndustryNode_canAddIncomingLinks p 1)
 \<and> (IndustryNode_incomingLinkCount p = 7 \<longrightarrow> \<not> IndustryNode_canAddIncomingLinks p 1)
 \<and> (TransferNode_incomingLinkCount r = 6 \<longrightarrow> TransferNode_canAddIncomingLinks r 1)
 \<and> (TransferNode_incomingLinkCount r = 7 \<longrightarrow> \<not> TransferNode_canAddIncomingLinks r 1)"
  by (simp add: ContainerNode_canAddIncomingLinks_def
      TransferContainerNode_canAddIncomingLinks_def IndustryNode_canAddIncomingLinks_def
      TransferNode_canAddIncomingLinks_def MAX_CONTAINER_LINKS_def MAX_INDUSTRY_LINKS_def)

theorem canAddIncomingLinks_limits_witness:
  "ContainerNode_canAddIncomingLinks
     ((containerNodes store0 0)\<lparr>ContainerNode.producers := map IndustryRef [0..<9]\<rparr>) 1
 \<and> \<not> ContainerNode_canAddIncomingLinks
     ((containerNodes store0 0)\<lparr>ContainerNode.producers := map IndustryRef [0..<10]\<rparr>) 1
 \<and> TransferContainerNode_canAddIncomingLinks
     ((transferContainerNodes store0 0)\<lparr>TransferContainerNode.producers := [0..<9]\<rparr>) 1
 \<and> \<not> TransferContainerNode_canAddIncomingLinks
     ((transferContainerNodes store0 0)\<lparr>TransferContainerNode.producers := [0..<10]\<rparr>) 1
 \<and> IndustryNode_canAddIncomingLinks
     ((industryNodes store0 0)\<lparr>IndustryNode.inputs := map ContainerRef [0..<6]\<rparr>) 1
 \<and> \<not> IndustryNode_canAddIncomingLinks
     ((industryNodes store0 0)\<lparr>IndustryNode.inputs := map ContainerRef [0..<7]\<rparr>) 1
 \<and> TransferNode_canAddIncomingLinks
     ((transferNodes store0 0)\<lparr>TransferNode.inputs := [0..<6]\<rparr>) 1
 \<and> \<not> TransferNode_canAddIncomingLinks
     ((transferNodes store0 0)\<lparr>TransferNode.inputs := [0..<7]\<rparr>) 1"
  using canAddIncomingLinks_limits
    [of "(containerNodes store0 0)\<lparr>ContainerNode.producers := map IndustryRef [0..<9]\<rparr>" 1
        "(transferContainerNodes store0 0)\<lparr>TransferContainerNode.producers := [0..<9]\<rparr>"
        "(industryNodes store0 0)\<lparr>IndustryNode.inputs := map ContainerRef [0..<6]\<rparr>"
        "(transferNodes store0 0)\<lparr>TransferNode.inputs := [0..<6]\<rparr>"]
    canAddIncomingLinks_limits
    [of "(containerNodes store0 0)\<lparr>ContainerNode.producers := map IndustryRef [0..<10]\<rparr>" 1
        "(transferContainerNodes store0 0)\<lparr>TransferContainerNode.producers := [0..<10]\<rparr>"
        "(industryNodes store0 0)\<lparr>IndustryNode.inputs := map ContainerRef [0..<7]\<rparr>"
        "(transferNodes store0 0)\<lparr>TransferNode.inputs := [0..<7]\<rparr>"]
  by (simp add: ContainerNode_incomingLinkCount_def TransferContainerNode_incomingLinkCount_def
      IndustryNode_incomingLinkCount_def TransferNode_incomingLinkCount_def)

subsection \<open>Rates of an industry\<close>

lemma addMatching_sum:
  "addMatching it xs q0 =
     q0 + sum_list (map ItemQuantity.quantity (filter (\<lambda>x. ItemQuantity.item x = it) xs))"
  unfolding addMatching_def by (induction xs arbitrary: q0) auto

text \<open>
  The claim C8 as stated fails in its second half: for a recipe whose time is 0, the
  quantity 0 of an item that is not produced is divided by 0, and \<^verbatim>\<open>getOutput\<close> returns
  \<^verbatim>\<open>NaN\<close>, not 0.
\<close>

theorem getOutput_of_instant_recipe_is_NaN:
  "recipesInstant (IndustryNode_item industryInstant) = Some (IndustryNode.recipe industryInstant)
 \<and> mkItem ''Y'' \<notin> ItemQuantity.item ` set (Recipe.product (IndustryNode.recipe industryInstant)
                                             # Recipe.byproducts (IndustryNode.recipe industryInstant))
 \<and> Recipe.time (IndustryNode.recipe industryInstant) = 0
 \<and> getOutput recipesInstant industryInstant (mkItem ''Y'') = Inr NaN"
  by (simp add: getOutput_def recipesInstant_def industryInstant_def recipeInstant_def
      IndustryNode_item_def mkItem_def addMatching_def)

text \<open>
  C8, amended. \<^verbatim>\<open>getOutput(i)\<close> of an industry is the sum of the quantities of the product
  and of the byproducts of its recipe whose item is \<open>i\<close>, divided by the time of the recipe
  with the division of the source; it is 0 when \<open>i\<close> is neither the product nor a
  byproduct and the time is not 0. The getter looks the recipe up again from the product
  item, so the statement is about a catalog in which this lookup finds the recipe of the
  node.
\<close>

theorem getOutput_rate:
  assumes "findRecipe (IndustryNode_item P) = Some (IndustryNode.recipe P)"
  shows "getOutput findRecipe P i =
           Inr (js_div
                  (Fin (sum_list (map ItemQuantity.quantity
                          (filter (\<lambda>x. ItemQuantity.item x = i)
                             (Recipe.product (IndustryNode.recipe P)
                                # Recipe.byproducts (IndustryNode.recipe P))))))
                  (Fin (Recipe.time (IndustryNode.recipe P))))
       \<and> (i \<notin> ItemQuantity.item ` set (Recipe.product (IndustryNode.recipe P)
                                           # Recipe.byproducts (IndustryNode.recipe P))
            \<longrightarrow> Recipe.time (IndustryNode.recipe P) \<noteq> 0
            \<longrightarrow> getOutput findRecipe P i = Inr (Fin 0))"
proof -
  let ?r = "IndustryNode.recipe P"
  let ?made = "Recipe.product ?r # Recipe.byproducts ?r"
  have run: "getOutput findRecipe P i =
      Inr (js_div (Fin (addMatching i (Recipe.byproducts ?r @ [Recipe.product ?r]) 0))
                  (Fin (Recipe.time ?r)))"
    using assms by (simp add: getOutput_def)
  have total: "addMatching i (Recipe.byproducts ?r @ [Recipe.product ?r]) 0 =
      sum_list (map ItemQuantity.quantity (filter (\<lambda>x. ItemQuantity.item x = i) ?made))"
    by (simp add: addMatching_sum)
  have none: "filter (\<lambda>x. ItemQuantity.item x = i) ?made = []"
    if "i \<notin> ItemQuantity.item ` set ?made"
    using that by (auto simp: filter_empty_conv)
  show ?thesis
    using run total none by (auto simp del: filter.simps)
qed

theorem getOutput_rate_witness:
  "getOutput recipesXP (industryNodes store0 0) (mkItem ''X'') = Inr (Fin (1 / 10))
 \<and> getOutput recipesXP (industryNodes store0 0) (mkItem ''Y'') = Inr (Fin 0)"
  using getOutput_rate [of recipesXP "industryNodes store0 0" "mkItem ''X''"]
    getOutput_rate [of recipesXP "industryNodes store0 0" "mkItem ''Y''"]
  by (simp add: store0_def recipesXP_def recipeX_def IndustryNode_item_def mkItem_def)

subsection \<open>The share of a relay's outflow per input buffer\<close>

text \<open>
  C10. \<^verbatim>\<open>inflowRatePerContainer\<close> of a relay is its \<^verbatim>\<open>outflowRate\<close> divided by the number of
  its input buffers. Nothing guards the division: for a finite outflow the quotient is a
  finite number exactly when the relay has an input buffer, and \<^verbatim>\<open>NaN\<close> or an infinity
  when it has none.
\<close>

theorem inflowRatePerContainer_quotient:
  assumes "outflowRate fuel findRecipe s t = Some (Inr x)"
  shows "inflowRatePerContainer fuel findRecipe s t =
           Some (Inr (js_div x (Fin (of_nat (length (TransferNode.inputs (transferNodes s t)))))))
       \<and> (is_finite x \<longrightarrow>
            is_finite (js_div x (Fin (of_nat (length (TransferNode.inputs (transferNodes s t))))))
              = (TransferNode.inputs (transferNodes s t) \<noteq> []))"
  using assms by (cases x) (auto simp: inflowRatePerContainer_def)

theorem inflowRatePerContainer_quotient_witness:
  "inflowRatePerContainer 1 recipesXP store0 0 = Some (Inr NaN)
 \<and> inflowRatePerContainer 1 recipesXP (TransferNode_takeFrom 0 0 store0) 0 = Some (Inr (Fin 0))
 \<and> inflowRatePerContainer 2 recipesXP relayChain 0 = Some (Inr (Fin (1 / 5)))"
proof -
  have unwired_relay: "outflowRate 1 recipesXP store0 0 = Some (Inr (Fin 0))"
    by (simp add: store0_def transferRate_def)
  have idle_relay: "outflowRate 1 recipesXP (TransferNode_takeFrom 0 0 store0) 0 = Some (Inr (Fin 0))"
    by (simp add: store0_def transferRate_def wiring_defs)
  have feeding_relay: "outflowRate 2 recipesXP relayChain 0 = Some (Inr (Fin (1 / 5)))"
    by (simp add: numeral_2_eq_2 relayChain_def store0_def transferRate_def wiring_defs
        getInput_def recipesXP_def recipeX_def IndustryNode_item_def mkItem_def addMatching_def)
  show ?thesis
    using inflowRatePerContainer_quotient [OF unwired_relay]
      inflowRatePerContainer_quotient [OF idle_relay]
      inflowRatePerContainer_quotient [OF feeding_relay]
    by (simp add: relayChain_def store0_def wiring_defs)
qed

subsection \<open>Wiring keeps both ends of an edge in step\<close>

lemma unwired_edge_symmetric: "unwired s \<Longrightarrow> edge_symmetric s"
  unfolding edge_symmetric_def
proof (intro allI)
  fix u b
  assume "unwired s"
  then show "producer_of s u b = (output_of s u = Some b) \<and> consumer_of s u b = input_of s u b"
    by (cases u; cases b) (auto simp: unwired_def)
qed

lemma industry_takeFrom_edge_symmetric:
  assumes "edge_symmetric s"
  shows "edge_symmetric (IndustryNode_takeFrom i b s)"
  unfolding edge_symmetric_def
proof (intro allI)
  fix u b'
  let ?s' = "IndustryNode_takeFrom i b s"
  from assms have before:
    "producer_of s u b' = (output_of s u = Some b')" "consumer_of s u b' = input_of s u b'"
    by (auto simp: edge_symmetric_def)
  then show "producer_of ?s' u b' = (output_of ?s' u = Some b') \<and>
             consumer_of ?s' u b' = input_of ?s' u b'"
    by (cases u; cases b'; cases b) (auto simp: IndustryNode_takeFrom_def upd_defs)
qed

lemma transfer_takeFrom_edge_symmetric:
  assumes "edge_symmetric s"
  shows "edge_symmetric (TransferNode_takeFrom t c s)"
  unfolding edge_symmetric_def
proof (intro allI)
  fix u b'
  let ?s' = "TransferNode_takeFrom t c s"
  from assms have before:
    "producer_of s u b' = (output_of s u = Some b')" "consumer_of s u b' = input_of s u b'"
    by (auto simp: edge_symmetric_def)
  then show "producer_of ?s' u b' = (output_of ?s' u = Some b') \<and>
             consumer_of ?s' u b' = input_of ?s' u b'"
    by (cases u; cases b') (auto simp: TransferNode_takeFrom_def upd_defs)
qed

text \<open>
  Replacing the output takes the unit out of the producers of the old buffer first; that
  the unit is a producer of no third buffer is the invariant before the call.
\<close>

lemma industry_outputTo_edge_symmetric:
  assumes "edge_symmetric s"
  shows "edge_symmetric (IndustryNode_outputTo i c s)"
  unfolding edge_symmetric_def
proof (intro allI)
  fix u b'
  let ?s' = "IndustryNode_outputTo i c s"
  from assms have before:
    "producer_of s u b' = (output_of s u = Some b')" "consumer_of s u b' = input_of s u b'"
    by (auto simp: edge_symmetric_def)
  then show "producer_of ?s' u b' = (output_of ?s' u = Some b') \<and>
             consumer_of ?s' u b' = input_of ?s' u b'"
    by (cases u; cases b'; cases "IndustryNode.output (industryNodes s i)")
       (auto simp: IndustryNode_outputTo_def upd_defs)
qed

lemma transfer_outputTo_edge_symmetric:
  assumes "edge_symmetric s"
  shows "edge_symmetric (TransferNode_outputTo t b s)"
  unfolding edge_symmetric_def
proof (intro allI)
  fix u b'
  let ?s' = "TransferNode_outputTo t b s"
  from assms have before:
    "producer_of s u b' = (output_of s u = Some b')" "consumer_of s u b' = input_of s u b'"
    by (auto simp: edge_symmetric_def)
  show "producer_of ?s' u b' = (output_of ?s' u = Some b') \<and>
        consumer_of ?s' u b' = input_of ?s' u b'"
  proof (cases "TransferNode.output (transferNodes s t)")
    case None
    with before show ?thesis
      by (cases u; cases b'; cases b) (auto simp: TransferNode_outputTo_def upd_defs)
  next
    case (Some old)
    with before show ?thesis
      by (cases u; cases b'; cases b; cases old) (auto simp: TransferNode_outputTo_def upd_defs)
  qed
qed

lemma reachable_edge_symmetric: "reachable s \<Longrightarrow> edge_symmetric s"
  by (induction rule: reachable.induct)
     (simp_all add: unwired_edge_symmetric industry_takeFrom_edge_symmetric
        industry_outputTo_edge_symmetric transfer_takeFrom_edge_symmetric
        transfer_outputTo_edge_symmetric)

text \<open>The lists stay free of duplicates, as the sets of the source are.\<close>

lemma unwired_sets_distinct: "unwired s \<Longrightarrow> sets_distinct s"
  by (simp add: unwired_def sets_distinct_def)

lemma industry_takeFrom_sets_distinct:
  "sets_distinct s \<Longrightarrow> sets_distinct (IndustryNode_takeFrom i b s)"
  by (cases b) (simp_all add: sets_distinct_def IndustryNode_takeFrom_def upd_defs)

lemma transfer_takeFrom_sets_distinct:
  "sets_distinct s \<Longrightarrow> sets_distinct (TransferNode_takeFrom t c s)"
  by (simp add: sets_distinct_def TransferNode_takeFrom_def upd_defs)

lemma industry_outputTo_sets_distinct:
  "sets_distinct s \<Longrightarrow> sets_distinct (IndustryNode_outputTo i c s)"
  by (cases "IndustryNode.output (industryNodes s i)")
     (simp_all add: sets_distinct_def IndustryNode_outputTo_def upd_defs)

lemma transfer_outputTo_sets_distinct:
  assumes "sets_distinct s"
  shows "sets_distinct (TransferNode_outputTo t b s)"
proof (cases "TransferNode.output (transferNodes s t)")
  case None
  with assms show ?thesis
    by (cases b) (simp_all add: sets_distinct_def TransferNode_outputTo_def upd_defs)
next
  case (Some old)
  with assms show ?thesis
    by (cases b; cases old) (simp_all add: sets_distinct_def TransferNode_outputTo_def upd_defs)
qed

lemma reachable_sets_distinct: "reachable s \<Longrightarrow> sets_distinct s"
  by (induction rule: reachable.induct)
     (simp_all add: unwired_sets_distinct industry_takeFrom_sets_distinct
        industry_outputTo_sets_distinct transfer_takeFrom_sets_distinct
        transfer_outputTo_sets_distinct)

lemma reachable_twoProducers: "reachable twoProducers"
  unfolding twoProducers_def
  by (intro reachable.intros) (simp add: unwired_def store0_def)

text \<open>
  C4. In every state that the wiring methods reach from freshly constructed nodes, a unit
  \<open>u\<close> (industry or relay) is in the producers of a buffer \<open>b\<close> iff \<open>b\<close> is the output of
  \<open>u\<close>, and \<open>u\<close> is in the consumers of \<open>b\<close> iff \<open>b\<close> is in the inputs of \<open>u\<close>.
\<close>

theorem wiring_keeps_edges_symmetric:
  assumes "reachable s"
  shows "producer_of s u b = (output_of s u = Some b) \<and> consumer_of s u b = input_of s u b"
  using reachable_edge_symmetric [OF assms] by (simp add: edge_symmetric_def)

theorem wiring_keeps_edges_symmetric_witness:
  "reachable twoProducers
 \<and> output_of twoProducers (TransferRef 0) = Some (ContainerRef 0)
 \<and> producer_of twoProducers (TransferRef 0) (ContainerRef 0)
 \<and> \<not> producer_of twoProducers (TransferRef 0) (TransferContainerRef 0)
 \<and> output_of twoProducers (IndustryRef 0) = Some (ContainerRef 0)
 \<and> producer_of twoProducers (IndustryRef 0) (ContainerRef 0)
 \<and> \<not> producer_of twoProducers (IndustryRef 0) (ContainerRef 1)"
proof -
  have outputs:
    "output_of twoProducers (TransferRef 0) = Some (ContainerRef 0)"
    "output_of twoProducers (IndustryRef 0) = Some (ContainerRef 0)"
    by (simp_all add: twoProducers_def store0_def wiring_defs)
  show ?thesis
    using reachable_twoProducers outputs
      wiring_keeps_edges_symmetric [OF reachable_twoProducers, of "TransferRef 0" "ContainerRef 0"]
      wiring_keeps_edges_symmetric [OF reachable_twoProducers, of "TransferRef 0" "TransferContainerRef 0"]
      wiring_keeps_edges_symmetric [OF reachable_twoProducers, of "IndustryRef 0" "ContainerRef 0"]
      wiring_keeps_edges_symmetric [OF reachable_twoProducers, of "IndustryRef 0" "ContainerRef 1"]
    by simp
qed

subsection \<open>Replacing an output moves one producer edge\<close>

lemma industry_outputTo_moves:
  assumes "IndustryNode.output (industryNodes s i) = Some a"
      and "producer_of s (IndustryRef i) (ContainerRef a)"
      and "b \<noteq> a"
      and "\<not> producer_of s (IndustryRef i) (ContainerRef b)"
      and "sets_distinct s"
  shows "\<not> producer_of (IndustryNode_outputTo i b s) (IndustryRef i) (ContainerRef a)
       \<and> producer_of (IndustryNode_outputTo i b s) (IndustryRef i) (ContainerRef b)
       \<and> Suc (BufferRef_incomingLinkCount (IndustryNode_outputTo i b s) (ContainerRef a))
           = BufferRef_incomingLinkCount s (ContainerRef a)
       \<and> BufferRef_incomingLinkCount (IndustryNode_outputTo i b s) (ContainerRef b)
           = Suc (BufferRef_incomingLinkCount s (ContainerRef b))"
proof -
  have d: "distinct (ContainerNode.producers (containerNodes s a))"
    using assms(5) by (simp add: sets_distinct_def)
  show ?thesis
    using assms(1-4) length_Set_delete [OF d, of "IndustryRef i"]
    by (simp add: IndustryNode_outputTo_def upd_defs ContainerNode_incomingLinkCount_def
        length_Set_add)
qed

lemma transfer_outputTo_moves:
  assumes "TransferNode.output (transferNodes s t) = Some A"
      and "producer_of s (TransferRef t) A"
      and "B \<noteq> A"
      and "\<not> producer_of s (TransferRef t) B"
      and "sets_distinct s"
  shows "\<not> producer_of (TransferNode_outputTo t B s) (TransferRef t) A
       \<and> producer_of (TransferNode_outputTo t B s) (TransferRef t) B
       \<and> Suc (BufferRef_incomingLinkCount (TransferNode_outputTo t B s) A)
           = BufferRef_incomingLinkCount s A
       \<and> BufferRef_incomingLinkCount (TransferNode_outputTo t B s) B
           = Suc (BufferRef_incomingLinkCount s B)"
proof -
  have d: "distinct (ContainerNode.producers (containerNodes s k))"
    "distinct (TransferContainerNode.producers (transferContainerNodes s k))" for k
    using assms(5) by (simp_all add: sets_distinct_def)
  show ?thesis
    using assms(1-4) length_Set_delete [OF d(1), of "TransferRef t"]
      length_Set_delete [OF d(2), of t]
    by (cases A; cases B)
       (simp_all add: TransferNode_outputTo_def upd_defs ContainerNode_incomingLinkCount_def
          TransferContainerNode_incomingLinkCount_def length_Set_add)
qed

text \<open>
  C5. A unit whose output is buffer \<open>A\<close>, and which is a producer of \<open>A\<close>, is given the
  output \<open>B\<close>, another buffer of which it is not yet a producer. Afterwards it is no
  producer of \<open>A\<close> and a producer of \<open>B\<close>; the incoming link count of \<open>A\<close> is one less and
  that of \<open>B\<close> one more. The first half is \<^verbatim>\<open>IndustryNode.outputTo\<close>, the second
  \<^verbatim>\<open>TransferNode.outputTo\<close>; \<open>sets_distinct\<close> says that the lists are sets.
\<close>

theorem outputTo_moves_producer_edge:
  "(IndustryNode.output (industryNodes s i) = Some a
      \<and> producer_of s (IndustryRef i) (ContainerRef a)
      \<and> b \<noteq> a \<and> \<not> producer_of s (IndustryRef i) (ContainerRef b) \<and> sets_distinct s
    \<longrightarrow> \<not> producer_of (IndustryNode_outputTo i b s) (IndustryRef i) (ContainerRef a)
       \<and> producer_of (IndustryNode_outputTo i b s) (IndustryRef i) (ContainerRef b)
       \<and> Suc (BufferRef_incomingLinkCount (IndustryNode_outputTo i b s) (ContainerRef a))
           = BufferRef_incomingLinkCount s (ContainerRef a)
       \<and> BufferRef_incomingLinkCount (IndustryNode_outputTo i b s) (ContainerRef b)
           = Suc (BufferRef_incomingLinkCount s (ContainerRef b)))
 \<and> (TransferNode.output (transferNodes s t) = Some A \<and> producer_of s (TransferRef t) A
      \<and> B \<noteq> A \<and> \<not> producer_of s (TransferRef t) B \<and> sets_distinct s
    \<longrightarrow> \<not> producer_of (TransferNode_outputTo t B s) (TransferRef t) A
       \<and> producer_of (TransferNode_outputTo t B s) (TransferRef t) B
       \<and> Suc (BufferRef_incomingLinkCount (TransferNode_outputTo t B s) A)
           = BufferRef_incomingLinkCount s A
       \<and> BufferRef_incomingLinkCount (TransferNode_outputTo t B s) B
           = Suc (BufferRef_incomingLinkCount s B))"
  using industry_outputTo_moves [of s i a b] transfer_outputTo_moves [of s t A B] by blast

theorem outputTo_moves_producer_edge_witness:
  "BufferRef_incomingLinkCount twoProducers (ContainerRef 0) = 2
 \<and> BufferRef_incomingLinkCount (IndustryNode_outputTo 0 1 twoProducers) (ContainerRef 0) = 1
 \<and> BufferRef_incomingLinkCount (IndustryNode_outputTo 0 1 twoProducers) (ContainerRef 1) = 1
 \<and> BufferRef_incomingLinkCount
      (TransferNode_outputTo 0 (TransferContainerRef 0) twoProducers) (ContainerRef 0) = 1
 \<and> BufferRef_incomingLinkCount
      (TransferNode_outputTo 0 (TransferContainerRef 0) twoProducers) (TransferContainerRef 0) = 1"
proof -
  have d: "sets_distinct twoProducers"
    using reachable_twoProducers by (rule reachable_sets_distinct)
  have f: "IndustryNode.output (industryNodes twoProducers 0) = Some 0"
    "TransferNode.output (transferNodes twoProducers 0) = Some (ContainerRef 0)"
    "ContainerNode.producers (containerNodes twoProducers 0) = [IndustryRef 0, TransferRef 0]"
    "ContainerNode.producers (containerNodes twoProducers 1) = []"
    "TransferContainerNode.producers (transferContainerNodes twoProducers 0) = []"
    by (simp_all add: twoProducers_def store0_def wiring_defs)
  show ?thesis
    using outputTo_moves_producer_edge
        [of twoProducers 0 0 1 0 "ContainerRef 0" "TransferContainerRef 0"] d f
    by (simp add: ContainerNode_incomingLinkCount_def TransferContainerNode_incomingLinkCount_def)
qed

subsection \<open>Which queries raise, and which return\<close>

text \<open>Fuel is a bound on the depth of the recursion only: more fuel does not change a result.\<close>

lemma consumptionLoop_mono:
  assumes "\<And>t r. inflow t = Some r \<Longrightarrow> inflow' t = Some r"
  shows "consumptionLoop inflow findRecipe s it cs acc = Some r
         \<Longrightarrow> consumptionLoop inflow' findRecipe s it cs acc = Some r"
proof (induction cs arbitrary: acc)
  case Nil
  then show ?case by simp
next
  case (Cons u cs)
  show ?case
  proof (cases u)
    case (IndustryRef i)
    with Cons show ?thesis by (auto split: sum.splits)
  next
    case (TransferRef t)
    with Cons.prems obtain r' where r': "inflow t = Some r'"
      by (auto split: option.splits)
    with assms have "inflow' t = Some r'" by simp
    with r' Cons TransferRef show ?thesis by (auto split: sum.splits)
  qed
qed

lemma outflowRate_more_fuel:
  "outflowRate fuel findRecipe s t = Some r \<Longrightarrow> outflowRate (Suc fuel) findRecipe s t = Some r"
proof (induction fuel arbitrary: t r)
  case 0
  then show ?case by simp
next
  case (Suc fuel)
  show ?case
  proof (cases "TransferNode.output (transferNodes s t)")
    case None
    with Suc.prems show ?thesis by simp
  next
    case (Some b)
    let ?loop = "\<lambda>k. consumptionLoop
        (\<lambda>t'. dividedByInputs (transferNodes s t') (outflowRate k findRecipe s t'))
        findRecipe s (TransferNode.item (transferNodes s t)) (BufferRef_consumers s b) (Fin 0)"
    from Suc.prems Some obtain q where q: "?loop fuel = Some q"
      by (auto split: option.splits)
    have step: "dividedByInputs (transferNodes s t') (outflowRate (Suc fuel) findRecipe s t') = Some r'"
      if "dividedByInputs (transferNodes s t') (outflowRate fuel findRecipe s t') = Some r'"
      for t' r'
    proof -
      from that obtain r0 where "outflowRate fuel findRecipe s t' = Some r0"
        by (cases "outflowRate fuel findRecipe s t'") auto
      with Suc.IH [OF this] that show ?thesis by simp
    qed
    have "?loop (Suc fuel) = Some q"
      by (rule consumptionLoop_mono [OF _ q]) (rule step)
    with q Suc.prems Some show ?thesis by simp
  qed
qed

text \<open>The getters of an industry return once the recipe resolves.\<close>

lemma getInput_returns:
  "recipes_resolve findRecipe s \<Longrightarrow> \<exists>x. getInput findRecipe (industryNodes s i) it = Inr x"
  by (auto simp: recipes_resolve_def getInput_def split: option.splits)

lemma getOutput_returns:
  "recipes_resolve findRecipe s \<Longrightarrow> \<exists>x. getOutput findRecipe (industryNodes s i) it = Inr x"
  by (auto simp: recipes_resolve_def getOutput_def split: option.splits)

text \<open>The rate of a relay returns when the fuel exceeds its rank.\<close>

lemma consumptionLoop_returns:
  assumes "recipes_resolve findRecipe s"
      and "\<And>t. TransferRef t \<in> set cs \<Longrightarrow> \<exists>x. inflow t = Some (Inr x)"
  shows "\<exists>x. consumptionLoop inflow findRecipe s it cs acc = Some (Inr x)"
  using assms(2)
proof (induction cs arbitrary: acc)
  case Nil
  then show ?case by simp
next
  case (Cons u cs)
  show ?case
  proof (cases u)
    case (IndustryRef i)
    obtain x where "getInput findRecipe (industryNodes s i) it = Inr x"
      using getInput_returns [OF assms(1)] by blast
    then show ?thesis using IndustryRef Cons by simp
  next
    case (TransferRef t)
    obtain x where "inflow t = Some (Inr x)"
      using Cons.prems [of t] TransferRef by auto
    then show ?thesis using TransferRef Cons by simp
  qed
qed

lemma outflowRate_returns:
  assumes "recipes_resolve findRecipe s" and "relays_ranked s rank"
  shows "rank t < fuel \<Longrightarrow> \<exists>x. outflowRate fuel findRecipe s t = Some (Inr x)"
proof (induction fuel arbitrary: t)
  case 0
  then show ?case by simp
next
  case (Suc fuel)
  show ?case
  proof (cases "TransferNode.output (transferNodes s t)")
    case None
    then show ?thesis by simp
  next
    case (Some b)
    let ?inflow = "\<lambda>t'. dividedByInputs (transferNodes s t') (outflowRate fuel findRecipe s t')"
    have "\<exists>x. ?inflow t' = Some (Inr x)"
      if "TransferRef t' \<in> set (BufferRef_consumers s b)" for t'
    proof -
      from that obtain c where "b = ContainerRef c"
        by (cases b) auto
      with that Some assms(2) have "rank t' < rank t"
        by (auto simp: relays_ranked_def)
      with Suc.prems have "rank t' < fuel" by simp
      from Suc.IH [OF this] show ?thesis by auto
    qed
    from consumptionLoop_returns [OF assms(1), of "BufferRef_consumers s b" ?inflow, OF this]
    obtain x where
      "consumptionLoop ?inflow findRecipe s (TransferNode.item (transferNodes s t))
         (BufferRef_consumers s b) (Fin 0) = Some (Inr x)"
      by blast
    then show ?thesis using Some by simp
  qed
qed

lemma collect_returns:
  "(\<And>r. r \<in> set rs \<Longrightarrow> \<exists>x. r = Some (Inr x)) \<Longrightarrow> \<exists>xs. collect rs = Some (Inr xs)"
proof (induction rs)
  case Nil
  then show ?case by simp
next
  case (Cons r rs)
  then obtain x where "r = Some (Inr x)" by force
  moreover from Cons obtain xs where "collect rs = Some (Inr xs)" by force
  ultimately show ?case by simp
qed

lemma enough_exceeds: "TransferRef t \<in> set us \<Longrightarrow> rank t < enough rank us"
  unfolding enough_def by (induction us) (auto split: NodeRef.splits)

lemma ingress_returns:
  assumes "recipes_resolve findRecipe s" and "relays_ranked s rank"
  shows "\<exists>fuel x. ingress fuel findRecipe s c = Some (Inr x)"
proof -
  let ?fuel = "enough rank (ContainerNode.producers c)"
  have "\<exists>x. ingressOf ?fuel findRecipe s (ContainerNode.item c) u = Some (Inr x)"
    if "u \<in> set (ContainerNode.producers c)" for u
  proof (cases u)
    case (IndustryRef i)
    then show ?thesis using getOutput_returns [OF assms(1)] by simp
  next
    case (TransferRef t)
    with that have "rank t < ?fuel" by (simp add: enough_exceeds)
    from outflowRate_returns [OF assms this] TransferRef show ?thesis by simp
  qed
  then have "\<exists>xs. collect (map (ingressOf ?fuel findRecipe s (ContainerNode.item c))
                             (ContainerNode.producers c)) = Some (Inr xs)"
    by (intro collect_returns) auto
  then have "\<exists>x. ingress ?fuel findRecipe s c = Some (Inr x)"
    by (auto simp: ingress_def)
  then show ?thesis by blast
qed

lemma egress_returns:
  assumes "recipes_resolve findRecipe s" and "relays_ranked s rank"
  shows "\<exists>fuel x. egress fuel findRecipe s c = Some (Inr x)"
proof -
  let ?fuel = "enough rank (ContainerNode.consumers c)"
  have "\<exists>x. egressOf ?fuel findRecipe s c u = Some (Inr x)"
    if "u \<in> set (ContainerNode.consumers c)" for u
  proof (cases u)
    case (IndustryRef i)
    then show ?thesis
      using getInput_returns [OF assms(1), of i "ContainerNode.item c"] by auto
  next
    case (TransferRef t)
    with that have "rank t < ?fuel" by (simp add: enough_exceeds)
    from outflowRate_returns [OF assms this] TransferRef show ?thesis
      by (auto simp: inflowRatePerContainer_def)
  qed
  then have "\<exists>xs. collect (map (egressOf ?fuel findRecipe s c) (ContainerNode.consumers c))
                    = Some (Inr xs)"
    by (intro collect_returns) auto
  then have "\<exists>x. egress ?fuel findRecipe s c = Some (Inr x)"
    by (auto simp: egress_def egress_base_def split: option.splits)
  then show ?thesis by blast
qed

text \<open>The required quantity returns once the recipes resolve.\<close>

lemma maintainLoop_returns:
  "recipes_resolve findRecipe s \<Longrightarrow> \<exists>m'. maintainLoop findRecipe s it cs m = Inr m'"
proof (induction cs arbitrary: m)
  case Nil
  then show ?case by simp
next
  case (Cons u cs)
  then show ?case
    by (cases u) (auto simp: recipes_resolve_def split: option.splits)
qed

lemma maintain_returns:
  "recipes_resolve findRecipe s \<Longrightarrow> \<exists>m. ContainerNode_maintain findRecipe s c = Inr m"
  using maintainLoop_returns [of findRecipe s "ContainerNode.item c" "ContainerNode.consumers c" 0]
  by (auto simp: ContainerNode_maintain_def ContainerNode_maintain_base_def split: option.splits)

lemma maintainConsumers_returns:
  "recipes_resolve findRecipe s \<Longrightarrow> \<exists>m'. maintainConsumers findRecipe s it cs m = Inr m'"
  by (induction cs arbitrary: m) (auto simp: recipes_resolve_def split: option.splits)

lemma maintainItems_returns:
  assumes "recipes_resolve findRecipe s"
  shows "\<exists>m'. maintainItems findRecipe s cs its m = Inr m'"
proof (induction its arbitrary: m)
  case Nil
  then show ?case by simp
next
  case (Cons it its)
  obtain m1 where "maintainConsumers findRecipe s it cs m = Inr m1"
    using maintainConsumers_returns [OF assms] by blast
  then show ?case using Cons [of m1] by simp
qed

lemma container_raises_iff:
  assumes "recipes_resolve findRecipe s"
  shows "(\<exists>e. ContainerNode_container findRecipe CONTAINERS s c = Inl e) = (CONTAINERS = [])"
    and "(ContainerNode_container findRecipe CONTAINERS s c = Inl CatalogEmpty) = (CONTAINERS = [])"
  using maintain_returns [OF assms, of c]
  by (auto simp: ContainerNode_container_def)

lemma transferContainer_raises_iff:
  assumes "recipes_resolve findRecipe s"
  shows "(\<exists>e. TransferContainerNode_container findRecipe CONTAINERS s m = Inl e) = (CONTAINERS = [])"
    and "(TransferContainerNode_container findRecipe CONTAINERS s m = Inl CatalogEmpty)
           = (CONTAINERS = [])"
  using maintainItems_returns [OF assms, of "TransferContainerNode.consumers m"
      "TransferContainerNode.items m" "[]"]
  by (auto simp: TransferContainerNode_container_def TransferContainerNode_maintain_def)

lemma canAddOutgoingLinks_returns_iff:
  "(\<exists>b. ContainerNode_canAddOutgoingLinks findRecipe s c n = Inr b)
     = (isSplit c \<or> isOre (ContainerNode.item c) \<or> findRecipe (ContainerNode.item c) \<noteq> None)"
  by (auto simp: ContainerNode_canAddOutgoingLinks_def split: option.splits)

text \<open>A relay that draws from the buffer it writes to: its rate does not return.\<close>

lemma relayLoop_fields:
  "TransferNode.output (transferNodes relayLoop 0) = Some (ContainerRef 0)"
  "ContainerNode.consumers (containerNodes relayLoop 0) = [TransferRef 0]"
  "ContainerNode.producers (containerNodes relayLoop 0) = [TransferRef 0]"
  "TransferNode.item (transferNodes relayLoop 0) = mkItem ''Y''"
  "ContainerNode.item (containerNodes relayLoop 0) = mkItem ''Y''"
  "ContainerNode.asOutput (containerNodes relayLoop 0) = None"
  by (simp_all add: relayLoop_def store0_def wiring_defs)

lemma relayLoop_outflowRate: "outflowRate fuel findRecipe relayLoop 0 = None"
  by (induction fuel) (simp_all add: relayLoop_fields)

lemma reachable_relayLoop: "reachable relayLoop"
  unfolding relayLoop_def
  by (intro reachable.intros) (simp add: unwired_def store0_def)

lemma reachable_relayChain: "reachable relayChain"
  unfolding relayChain_def
  by (intro reachable.intros) (simp add: unwired_def store0_def)

lemma relayLoop_resolves: "recipes_resolve recipesXP relayLoop"
  by (simp add: recipes_resolve_def relayLoop_def store0_def wiring_defs IndustryNode_item_def
      recipesXP_def recipeX_def)

lemma relayChain_fields:
  "TransferNode.output (transferNodes relayChain t) =
     (if t = 0 then Some (ContainerRef 1) else if t = 1 then Some (TransferContainerRef 2) else None)"
  "ContainerNode.consumers (containerNodes relayChain c) =
     (if c = 0 then [TransferRef 0] else if c = 1 then [TransferRef 1] else [])"
  by (simp_all add: relayChain_def store0_def wiring_defs)

lemma relayChain_ranked: "relays_ranked relayChain (\<lambda>t. if t = 0 then 1 else 0)"
  unfolding relays_ranked_def relayChain_fields
  by (auto split: if_splits)

lemma relayChain_resolves: "recipes_resolve recipesXP relayChain"
  by (simp add: recipes_resolve_def relayChain_def store0_def wiring_defs IndustryNode_item_def
      recipesXP_def recipeX_def)

text \<open>
  The claim C9 as stated fails in two places. First, on the rate getters of a buffer: after
  \<^verbatim>\<open>t.takeFrom(c); t.outputTo(c)\<close> the getters \<^verbatim>\<open>egress\<close> and \<^verbatim>\<open>ingress\<close> of \<open>c\<close> call
  \<^verbatim>\<open>outflowRate\<close> of \<open>t\<close>, which calls \<^verbatim>\<open>inflowRatePerContainer\<close> of \<open>t\<close>, which calls
  \<^verbatim>\<open>outflowRate\<close> of \<open>t\<close> again, without end: no amount of fuel yields a result, although
  the recipe of every industry resolves. Second, on a link-capacity check: that buffer \<open>c\<close>
  is not split and holds \<open>Y\<close>, which is not raw and has no recipe, so
  \<^verbatim>\<open>canAddOutgoingLinks\<close> raises the error of the recipe lookup.
\<close>

theorem relay_cycle_and_missing_recipe:
  "reachable relayLoop
 \<and> recipes_resolve recipesXP relayLoop
 \<and> (\<forall>fuel. egress fuel recipesXP relayLoop (containerNodes relayLoop 0) = None)
 \<and> (\<forall>fuel. ingress fuel recipesXP relayLoop (containerNodes relayLoop 0) = None)
 \<and> \<not> isSplit (containerNodes relayLoop 0)
 \<and> \<not> isOre (ContainerNode.item (containerNodes relayLoop 0))
 \<and> ContainerNode_canAddOutgoingLinks recipesXP relayLoop (containerNodes relayLoop 0) 1
      = Inl NoRecipe"
proof (intro conjI)
  show "reachable relayLoop"
    by (rule reachable_relayLoop)
  show "recipes_resolve recipesXP relayLoop"
    by (rule relayLoop_resolves)
  show "\<forall>fuel. egress fuel recipesXP relayLoop (containerNodes relayLoop 0) = None"
    by (simp add: egress_def egress_base_def relayLoop_fields inflowRatePerContainer_def
        relayLoop_outflowRate)
  show "\<forall>fuel. ingress fuel recipesXP relayLoop (containerNodes relayLoop 0) = None"
    by (simp add: ingress_def isOre_def mkItem_def relayLoop_fields relayLoop_outflowRate)
  show "\<not> isSplit (containerNodes relayLoop 0)"
    by (simp add: isSplit_def relayLoop_def store0_def wiring_defs)
  show "\<not> isOre (ContainerNode.item (containerNodes relayLoop 0))"
    by (simp add: isOre_def mkItem_def relayLoop_fields)
  show "ContainerNode_canAddOutgoingLinks recipesXP relayLoop (containerNodes relayLoop 0) 1
          = Inl NoRecipe"
    by (simp add: ContainerNode_canAddOutgoingLinks_def isSplit_def isOre_def recipesXP_def
        mkItem_def relayLoop_def store0_def wiring_defs)
qed

text \<open>
  C9, amended. When the recipe of every industry resolves, \<^verbatim>\<open>container\<close> of a buffer of
  either class raises iff the catalog of tiers is empty, and the error is the one of the
  empty catalog; \<^verbatim>\<open>getInput\<close> and \<^verbatim>\<open>getOutput\<close> return a number for every item; and
  \<^verbatim>\<open>ingress\<close> and \<^verbatim>\<open>egress\<close> return a number when, in addition, no chain of relays runs in
  a cycle. The acyclic relays are asked for by these two getters alone. Whatever the store,
  \<^verbatim>\<open>canAddOutgoingLinks\<close> returns a truth value iff the buffer is split, holds a raw item
  or holds an item with a recipe. The wiring methods and \<^verbatim>\<open>canAddIncomingLinks\<close> have no
  error among their results at all.
\<close>

theorem queries_return_without_relay_cycle:
  "(recipes_resolve findRecipe s \<longrightarrow>
      ((\<exists>e. ContainerNode_container findRecipe CONTAINERS s c = Inl e) = (CONTAINERS = []))
    \<and> ((ContainerNode_container findRecipe CONTAINERS s c = Inl CatalogEmpty) = (CONTAINERS = []))
    \<and> ((\<exists>e. TransferContainerNode_container findRecipe CONTAINERS s m = Inl e) = (CONTAINERS = []))
    \<and> ((TransferContainerNode_container findRecipe CONTAINERS s m = Inl CatalogEmpty)
         = (CONTAINERS = []))
    \<and> (\<exists>x. getInput findRecipe (industryNodes s i) it = Inr x)
    \<and> (\<exists>x. getOutput findRecipe (industryNodes s i) it = Inr x)
    \<and> (relays_ranked s rank \<longrightarrow>
          (\<exists>fuel x. ingress fuel findRecipe s c = Some (Inr x))
        \<and> (\<exists>fuel x. egress fuel findRecipe s c = Some (Inr x))))
 \<and> ((\<exists>b. ContainerNode_canAddOutgoingLinks findRecipe s c n = Inr b)
      = (isSplit c \<or> isOre (ContainerNode.item c) \<or> findRecipe (ContainerNode.item c) \<noteq> None))"
proof (intro conjI impI)
  assume r: "recipes_resolve findRecipe s"
  show "(\<exists>e. ContainerNode_container findRecipe CONTAINERS s c = Inl e) = (CONTAINERS = [])"
    by (rule container_raises_iff(1) [OF r])
  show "(ContainerNode_container findRecipe CONTAINERS s c = Inl CatalogEmpty) = (CONTAINERS = [])"
    by (rule container_raises_iff(2) [OF r])
  show "(\<exists>e. TransferContainerNode_container findRecipe CONTAINERS s m = Inl e) = (CONTAINERS = [])"
    by (rule transferContainer_raises_iff(1) [OF r])
  show "(TransferContainerNode_container findRecipe CONTAINERS s m = Inl CatalogEmpty)
          = (CONTAINERS = [])"
    by (rule transferContainer_raises_iff(2) [OF r])
  show "\<exists>x. getInput findRecipe (industryNodes s i) it = Inr x"
    by (rule getInput_returns [OF r])
  show "\<exists>x. getOutput findRecipe (industryNodes s i) it = Inr x"
    by (rule getOutput_returns [OF r])
  assume k: "relays_ranked s rank"
  show "\<exists>fuel x. ingress fuel findRecipe s c = Some (Inr x)"
    by (rule ingress_returns [OF r k])
  show "\<exists>fuel x. egress fuel findRecipe s c = Some (Inr x)"
    by (rule egress_returns [OF r k])
next
  show "(\<exists>b. ContainerNode_canAddOutgoingLinks findRecipe s c n = Inr b)
          = (isSplit c \<or> isOre (ContainerNode.item c) \<or> findRecipe (ContainerNode.item c) \<noteq> None)"
    by (rule canAddOutgoingLinks_returns_iff)
qed

text \<open>
  The theorem on the looped relay, where no rank exists, and on the chain of two relays.
\<close>

theorem queries_return_without_relay_cycle_witness:
  "ContainerNode_container recipesXP [tierS, tierM] relayLoop (containerNodes relayLoop 0)
      \<noteq> Inl CatalogEmpty
 \<and> ContainerNode_container recipesXP [] relayLoop (containerNodes relayLoop 0) = Inl CatalogEmpty
 \<and> TransferContainerNode_container recipesXP [] relayLoop (transferContainerNodes relayLoop 2)
      = Inl CatalogEmpty
 \<and> (\<exists>x. getInput recipesXP (industryNodes relayLoop 0) (mkItem ''Y'') = Inr x)
 \<and> (\<exists>x. getOutput recipesXP (industryNodes relayLoop 0) (mkItem ''Y'') = Inr x)
 \<and> (\<exists>fuel x. egress fuel recipesXP relayChain (containerNodes relayChain 0) = Some (Inr x))
 \<and> (\<exists>fuel x. ingress fuel recipesXP relayChain (containerNodes relayChain 1) = Some (Inr x))
 \<and> (\<exists>b. ContainerNode_canAddOutgoingLinks recipesXP relayChain (containerNodes relayChain 1) 1
           = Inr b)"
proof -
  let ?l0 = "containerNodes relayLoop 0"
  let ?l2 = "transferContainerNodes relayLoop 2"
  let ?c0 = "containerNodes relayChain 0"
  let ?c1 = "containerNodes relayChain 1"
  let ?m2 = "transferContainerNodes relayChain 2"
  let ?Y = "mkItem ''Y''"
  let ?rk = "\<lambda>t::nat. if t = 0 then 1 else (0::nat)"
  note q = queries_return_without_relay_cycle
  note loop_full = q [where findRecipe = recipesXP and s = relayLoop and c = ?l0 and m = ?l2
      and CONTAINERS = "[tierS, tierM]" and i = 0 and it = ?Y and rank = ?rk and n = 1,
      THEN conjunct1, THEN mp, OF relayLoop_resolves]
  note loop_empty = q [where findRecipe = recipesXP and s = relayLoop and c = ?l0 and m = ?l2
      and CONTAINERS = "[]" and i = 0 and it = ?Y and rank = ?rk and n = 1,
      THEN conjunct1, THEN mp, OF relayLoop_resolves]
  note chain0 = q [where findRecipe = recipesXP and s = relayChain and c = ?c0 and m = ?m2
      and CONTAINERS = "[]" and i = 0 and it = ?Y and rank = ?rk and n = 1]
  note chain1 = q [where findRecipe = recipesXP and s = relayChain and c = ?c1 and m = ?m2
      and CONTAINERS = "[]" and i = 0 and it = ?Y and rank = ?rk and n = 1]
  have "(ContainerNode_container recipesXP [tierS, tierM] relayLoop ?l0 = Inl CatalogEmpty)
          = ([tierS, tierM] = [])"
    using loop_full by (elim conjE)
  then have full: "ContainerNode_container recipesXP [tierS, tierM] relayLoop ?l0 \<noteq> Inl CatalogEmpty"
    by simp
  have "(ContainerNode_container recipesXP [] relayLoop ?l0 = Inl CatalogEmpty)
          = ([] = ([] :: ContainerElement list))"
    using loop_empty by (elim conjE)
  then have empty: "ContainerNode_container recipesXP [] relayLoop ?l0 = Inl CatalogEmpty"
    by simp
  have "(TransferContainerNode_container recipesXP [] relayLoop ?l2 = Inl CatalogEmpty)
          = ([] = ([] :: ContainerElement list))"
    using loop_empty by (elim conjE)
  then have empty': "TransferContainerNode_container recipesXP [] relayLoop ?l2 = Inl CatalogEmpty"
    by simp
  have inp: "\<exists>x. getInput recipesXP (industryNodes relayLoop 0) ?Y = Inr x"
    using loop_empty by (elim conjE)
  have out: "\<exists>x. getOutput recipesXP (industryNodes relayLoop 0) ?Y = Inr x"
    using loop_empty by (elim conjE)
  have "relays_ranked relayChain ?rk \<longrightarrow>
          (\<exists>fuel x. ingress fuel recipesXP relayChain ?c0 = Some (Inr x))
        \<and> (\<exists>fuel x. egress fuel recipesXP relayChain ?c0 = Some (Inr x))"
    using chain0 [THEN conjunct1, THEN mp, OF relayChain_resolves] by (elim conjE)
  from this [THEN mp, OF relayChain_ranked]
  have egr: "\<exists>fuel x. egress fuel recipesXP relayChain ?c0 = Some (Inr x)"
    by (rule conjunct2)
  have "relays_ranked relayChain ?rk \<longrightarrow>
          (\<exists>fuel x. ingress fuel recipesXP relayChain ?c1 = Some (Inr x))
        \<and> (\<exists>fuel x. egress fuel recipesXP relayChain ?c1 = Some (Inr x))"
    using chain1 [THEN conjunct1, THEN mp, OF relayChain_resolves] by (elim conjE)
  from this [THEN mp, OF relayChain_ranked]
  have ing: "\<exists>fuel x. ingress fuel recipesXP relayChain ?c1 = Some (Inr x)"
    by (rule conjunct1)
  have p: "isSplit ?c1 \<or> isOre (ContainerNode.item ?c1) \<or> recipesXP (ContainerNode.item ?c1) \<noteq> None"
    by (simp add: relayChain_def store0_def wiring_defs recipesXP_def mkItem_def)
  have can: "\<exists>b. ContainerNode_canAddOutgoingLinks recipesXP relayChain ?c1 1 = Inr b"
    using chain1 [THEN conjunct2] p by (rule iffD2)
  from full empty empty' inp out egr ing can show ?thesis
    by (intro conjI)
qed

end
